theory Spec2Isabelle
  imports Main
begin

section \<open>Python exceptions and string primitives\<close>

text \<open>
  The module under study is \<^verbatim>\<open>soundcloud.py\<close>. Every \<^verbatim>\<open>raise\<close> of the source, and
  every exception a subscript, an attribute access or a library call of the source can
  raise, is a value of \<open>exn\<close>; a function that may raise returns \<open>exn + 'a\<close> with
  \<open>Inl\<close> the exception. \<open>KeyError\<close> carries the missing key, \<open>Exception\<close> the message of
  a plain \<^verbatim>\<open>raise Exception(msg)\<close>, \<open>HTTPError\<close> the status code.
\<close>

datatype exn =
    KeyError string
  | TypeError
  | AttributeError
  | IndexError
  | Exception string
  | HTTPError nat
  | RequestException
  | JSONDecodeError

text \<open>\<^verbatim>\<open>s.startswith(p)\<close>\<close>

fun startswith :: "string \<Rightarrow> string \<Rightarrow> bool" where
  "startswith s [] = True"
| "startswith [] (c # p) = False"
| "startswith (d # s) (c # p) = (d = c \<and> startswith s p)"

text \<open>\<^verbatim>\<open>sub in s\<close> on strings: \<open>sub\<close> occurs in \<open>s\<close> as a contiguous substring.\<close>

fun str_in :: "string \<Rightarrow> string \<Rightarrow> bool" where
  "str_in sub [] = (sub = [])"
| "str_in sub (c # s) = (startswith (c # s) sub \<or> str_in sub s)"

text \<open>
  \<^verbatim>\<open>s.lower()\<close>. Strings are modelled as lists of 8-bit characters; the letters
  \<^verbatim>\<open>A\<close> to \<^verbatim>\<open>Z\<close> are folded, every other character is kept.
\<close>

definition lower_char :: "char \<Rightarrow> char" where
  "lower_char c =
     (case map_of (zip ''ABCDEFGHIJKLMNOPQRSTUVWXYZ'' ''abcdefghijklmnopqrstuvwxyz'') c of
        None \<Rightarrow> c
      | Some d \<Rightarrow> d)"

definition lower :: "string \<Rightarrow> string" where
  "lower s = map lower_char s"

section \<open>The track record\<close>

text \<open>
  The JSON objects the code reads are records whose fields are optional: \<open>None\<close> is a
  key that is absent from the dict, so that \<^verbatim>\<open>d.get(k, default)\<close> is a case
  distinction and \<^verbatim>\<open>d[k]\<close> raises \<open>KeyError\<close> on \<open>None\<close>. For
  \<^verbatim>\<open>publisher_metadata\<close> and its entries the source also handles a key that is
  present with the value \<^verbatim>\<open>null\<close> (the handlers for \<^verbatim>\<open>TypeError\<close> and
  \<^verbatim>\<open>AttributeError\<close>), so these are three-valued.
\<close>

datatype 'a field = Absent | Null | Present 'a

record audio_format =
  mime_type :: "string option"
  protocol :: "string option"

record transcoding =
  preset :: "string option"
  quality :: "string option"
  format :: "audio_format option"
  url :: "string option"
  duration :: "int option"

record publisher_metadata =
  artist :: "string field"
  album_name :: "string field"
  c_line :: "string field"

record user =
  username :: "string option"

record media =
  transcodings :: "transcoding list option"

record track_data =
  track_id :: "int option"
  permalink_url :: "string option"
  title :: "string option"
  user :: "user option"
  artwork_url :: "string option"
  description :: "string option"
  genre :: "string option"
  label_name :: "string option"
  release_date :: "string option"
  last_modified :: "string option"
  streamable :: "bool option"
  publisher_metadata :: "publisher_metadata field"
  media :: "media option"
  track_authorization :: "string option"

text \<open>A track record with no key at all, the base of the concrete inputs below.\<close>

definition empty_track :: track_data where
  "empty_track =
     \<lparr>track_id = None, permalink_url = None, title = None, user = None,
      artwork_url = None, description = None, genre = None, label_name = None,
      release_date = None, last_modified = None, streamable = None,
      publisher_metadata = Absent, media = None, track_authorization = None\<rparr>"

text \<open>A Python dict is falsy exactly when it has no key.\<close>

definition dict_empty :: "transcoding \<Rightarrow> bool" where
  "dict_empty t =
     (preset t = None \<and> quality t = None \<and> format t = None \<and> url t = None \<and>
      duration t = None)"

section \<open>Fetching the track record\<close>

text \<open>
  \<^verbatim>\<open>soundcloud_fetch_track_data\<close> performs one HTTP request. The reply of the
  transport is an input of the model: the request raised, or it returned a status code
  and a body, which is a track record or not JSON at all.
  \<^verbatim>\<open>raise_for_status\<close> raises on the codes 400 to 599.
\<close>

datatype http_reply = NoReply | Reply nat "track_data option"

definition soundcloud_fetch_track_data :: "http_reply \<Rightarrow> exn + track_data" where
  "soundcloud_fetch_track_data r =
     (case r of
        NoReply \<Rightarrow> Inl RequestException
      | Reply status_code body \<Rightarrow>
          if 400 \<le> status_code \<and> status_code < 600 then Inl (HTTPError status_code)
          else (case body of None \<Rightarrow> Inl JSONDecodeError | Some track \<Rightarrow> Inr track))"

section \<open>Container inference and transcoding filter\<close>

definition guess_container_from_mime :: "string \<Rightarrow> string" where
  "guess_container_from_mime mime =
     (let mime_type = lower mime in
      if str_in ''mpeg'' mime_type then ''mp3''
      else if str_in ''mp4'' mime_type then ''m4a''
      else if str_in ''ogg'' mime_type then ''ogg''
      else ''mp3'')"

text \<open>\<^verbatim>\<open>t.get('format', {}).get('protocol', '')\<close>\<close>

definition get_protocol :: "transcoding \<Rightarrow> string" where
  "get_protocol t =
     (case format t of
        None \<Rightarrow> ''''
      | Some f \<Rightarrow> (case protocol f of None \<Rightarrow> '''' | Some p \<Rightarrow> p))"

text \<open>\<^verbatim>\<open>t.get('preset', '')\<close>\<close>

definition get_preset :: "transcoding \<Rightarrow> string" where
  "get_preset t = (case preset t of None \<Rightarrow> '''' | Some p \<Rightarrow> p)"

text \<open>
  \<^verbatim>\<open>filter_transcodings(transcodings_list, quality=None, preset_prefix=None)\<close>:
  the loop appends to \<^verbatim>\<open>filtered\<close> in list order, \<^verbatim>\<open>continue\<close> skips an entry.
  \<^verbatim>\<open>t.get('quality') != quality\<close> compares an optional string with the requested one.
\<close>

fun filter_transcodings ::
  "transcoding list \<Rightarrow> string option \<Rightarrow> string option \<Rightarrow> transcoding list" where
  "filter_transcodings [] qual preset_prefix = []"
| "filter_transcodings (t # ts) qual preset_prefix =
     (if str_in ''encrypted'' (get_protocol t)
        then filter_transcodings ts qual preset_prefix
      else if qual \<noteq> None \<and> quality t \<noteq> qual
        then filter_transcodings ts qual preset_prefix
      else if (case preset_prefix of
                 None \<Rightarrow> False
               | Some p \<Rightarrow> \<not> startswith (get_preset t) p)
        then filter_transcodings ts qual preset_prefix
      else t # filter_transcodings ts qual preset_prefix)"

section \<open>Downloading a track: the choice of the transcoding\<close>

text \<open>\<^verbatim>\<open>track_data.get("media", {}).get("transcodings", [])\<close>\<close>

definition get_transcodings :: "track_data \<Rightarrow> transcoding list" where
  "get_transcodings track =
     (case media track of
        None \<Rightarrow> []
      | Some m \<Rightarrow> (case transcodings m of None \<Rightarrow> [] | Some ts \<Rightarrow> ts))"

text \<open>
  \<^verbatim>\<open>not chosen\<close>, for \<^verbatim>\<open>chosen\<close> that is \<^verbatim>\<open>None\<close> or a transcoding dict.
\<close>

definition not_chosen :: "transcoding option \<Rightarrow> bool" where
  "not_chosen chosen = (case chosen of None \<Rightarrow> True | Some t \<Rightarrow> dict_empty t)"

text \<open>
  Step 2 of \<^verbatim>\<open>soundcloud_download_track\<close>, "Choose the best transcoding": the value
  of \<^verbatim>\<open>chosen\<close> when the cascade is over. \<^verbatim>\<open>cs[0]\<close> is only taken of a list tested
  non-empty.
\<close>

definition choose_transcoding :: "transcoding list \<Rightarrow> bool \<Rightarrow> transcoding option" where
  "choose_transcoding ts hq =
     (let chosen =
        (if hq then
           (case filter_transcodings ts (Some ''hq'') None of
              [] \<Rightarrow> None
            | c # _ \<Rightarrow> Some c)
         else None)
      in
      if not_chosen chosen then
        (case filter_transcodings ts None (Some ''aac_'') of
           c # _ \<Rightarrow> Some c
         | [] \<Rightarrow>
           (case filter_transcodings ts None (Some ''mp3_'') of
              c # _ \<Rightarrow> Some c
            | [] \<Rightarrow>
              (case filter_transcodings ts None (Some ''opus_'') of
                 c # _ \<Rightarrow> Some c
               | [] \<Rightarrow> chosen)))
      else chosen)"

text \<open>
  The log line after the choice reads \<^verbatim>\<open>chosen['preset']\<close>,
  \<^verbatim>\<open>chosen['format']['protocol']\<close> and \<^verbatim>\<open>chosen['format']['mime_type']\<close> by
  subscript, in this order; the f-string is evaluated whatever the log level.
\<close>

definition log_chosen :: "transcoding \<Rightarrow> exn + unit" where
  "log_chosen c =
     (case preset c of
        None \<Rightarrow> Inl (KeyError ''preset'')
      | Some _ \<Rightarrow>
        (case format c of
           None \<Rightarrow> Inl (KeyError ''format'')
         | Some f \<Rightarrow>
           (case protocol f of
              None \<Rightarrow> Inl (KeyError ''protocol'')
            | Some _ \<Rightarrow>
              (case mime_type f of
                 None \<Rightarrow> Inl (KeyError ''mime_type'')
               | Some _ \<Rightarrow> Inr ()))))"

text \<open>\<^verbatim>\<open>chosen.get("format", {}).get("mime_type", "")\<close>\<close>

definition get_mime_type :: "transcoding \<Rightarrow> string" where
  "get_mime_type t =
     (case format t of
        None \<Rightarrow> ''''
      | Some f \<Rightarrow> (case mime_type f of None \<Rightarrow> '''' | Some m \<Rightarrow> m))"

text \<open>
  \<^verbatim>\<open>os.path.splitext\<close> of the POSIX path module: the extension starts at the last
  dot of the last path component, unless that component has only leading dots before
  it. \<open>rfind\<close> is \<^verbatim>\<open>str.rfind\<close> for a single character, \<open>-1\<close> when it does not occur.
\<close>

fun rfind :: "string \<Rightarrow> char \<Rightarrow> int" where
  "rfind [] c = -1"
| "rfind (d # s) c =
     (let i = rfind s c in if 0 \<le> i then i + 1 else if d = c then 0 else -1)"

definition splitext :: "string \<Rightarrow> string \<times> string" where
  "splitext p =
     (let sepIndex = rfind p (CHR ''/''); dotIndex = rfind p (CHR ''.'') in
      if dotIndex > sepIndex \<and>
         list_ex (\<lambda>c. c \<noteq> CHR ''.'')
           (take (nat (dotIndex - (sepIndex + 1))) (drop (nat (sepIndex + 1)) p))
      then (take (nat dotIndex) p, drop (nat dotIndex) p)
      else (p, ''''))"

text \<open>
  \<^verbatim>\<open>soundcloud_download_track(token, item_id, hq=True, output_path=None)\<close>. The
  result \<open>Inr None\<close> is the Python value \<^verbatim>\<open>None\<close> of a call that reaches the end of
  the body without a \<^verbatim>\<open>return\<close>: the only \<^verbatim>\<open>return\<close> statement of the function is
  indented into the \<^verbatim>\<open>else\<close> branch of \<^verbatim>\<open>if not output_path\<close>. The token
  only supplies the parameters of the request and is left out; the log calls other than
  the one after the choice use \<^verbatim>\<open>get\<close> only and cannot raise.
\<close>

definition soundcloud_download_track ::
  "http_reply \<Rightarrow> string \<Rightarrow> bool \<Rightarrow> string option \<Rightarrow> exn + (string \<times> transcoding) option" where
  "soundcloud_download_track reply item_id hq output_path =
     (case soundcloud_fetch_track_data reply of
        Inl e \<Rightarrow> Inl e
      | Inr track \<Rightarrow>
        (let ts = get_transcodings track in
         if ts = [] then Inl (Exception ''No transcodings found or track not streamable.'')
         else
           (case choose_transcoding ts hq of
              None \<Rightarrow> Inl (Exception ''No suitable transcoding found.'')
            | Some chosen \<Rightarrow>
              if dict_empty chosen then Inl (Exception ''No suitable transcoding found.'')
              else
                (case log_chosen chosen of
                   Inl e \<Rightarrow> Inl e
                 | Inr _ \<Rightarrow>
                   (let container = guess_container_from_mime (get_mime_type chosen);
                        path = (case output_path of None \<Rightarrow> '''' | Some p \<Rightarrow> p);
                        (base_path, original_ext) = splitext path
                    in
                    if path = '''' then Inr None
                    else Inr (Some (base_path @ ''.'' @ container, chosen)))))))"

section \<open>Resolving the metadata of a track\<close>

subsection \<open>Values, transport outcomes and the album record\<close>

text \<open>
  The fields of the result hold Python values of several types: \<^verbatim>\<open>track_number\<close> is
  an \<^verbatim>\<open>int\<close> or a \<^verbatim>\<open>str\<close>, \<^verbatim>\<open>album_name\<close> a \<^verbatim>\<open>str\<close> or \<^verbatim>\<open>None\<close>.
\<close>

datatype pyval = PyNone | PyBool bool | PyInt int | PyStr string | PyList "pyval list"

text \<open>\<^verbatim>\<open>not v\<close>\<close>

definition py_not :: "pyval \<Rightarrow> bool" where
  "py_not v =
     (v = PyNone \<or> v = PyBool False \<or> v = PyInt 0 \<or> v = PyStr '''' \<or> v = PyList [])"

text \<open>
  \<^verbatim>\<open>make_call\<close> belongs to the utilities module and is not part of the sources under
  study, so the outcome of each of its calls is an input of the model: the call raised,
  it returned \<^verbatim>\<open>None\<close>, or it returned a value of the expected shape.
  \<^verbatim>\<open>conv_list_format\<close>, of the same module, is a parameter \<open>conv\<close> of the model as
  well: a function from a Python value to a Python value that may raise.
\<close>

datatype 'a fetched = Raised exn | NoData | Data 'a

text \<open>
  The album record of the resolve endpoint: \<^verbatim>\<open>track_count\<close> and \<^verbatim>\<open>tracks\<close>, a list
  of entries each given by its \<^verbatim>\<open>id\<close>.
\<close>

record album_data =
  track_count :: "int option"
  tracks :: "int list option"

subsection \<open>String functions of the Python library\<close>

definition dquote :: char where
  "dquote = CHR 0x22"

definition newline :: char where
  "newline = CHR 0x0A"

text \<open>\<^verbatim>\<open>s.find(sub)\<close>: the index of the first occurrence, \<open>-1\<close> when there is none.\<close>

fun str_find :: "string \<Rightarrow> string \<Rightarrow> int" where
  "str_find [] sub = (if sub = [] then 0 else -1)"
| "str_find (c # s) sub =
     (if startswith (c # s) sub then 0
      else (let i = str_find s sub in if i = -1 then -1 else i + 1))"

text \<open>What follows the first occurrence of \<open>sub\<close> in \<open>s\<close>.\<close>

fun after_first :: "string \<Rightarrow> string \<Rightarrow> string option" where
  "after_first [] sub = (if sub = [] then Some [] else None)"
| "after_first (c # s) sub =
     (if startswith (c # s) sub then Some (drop (length sub) (c # s))
      else after_first s sub)"

text \<open>
  \<^verbatim>\<open>re.search(r'href="([^"]*)"', s)\<close>, its group 1. The class \<^verbatim>\<open>[^"]*\<close> cannot run
  over a quote, so a match starts at the first \<^verbatim>\<open>href="\<close> and its group ends at the
  next quote; when no quote follows the first \<^verbatim>\<open>href="\<close>, no later start has one.
\<close>

definition re_search_href :: "string \<Rightarrow> string option" where
  "re_search_href s =
     (case after_first s (''href='' @ [dquote]) of
        None \<Rightarrow> None
      | Some rest \<Rightarrow>
          if dquote \<in> set rest then Some (takeWhile (\<lambda>c. c \<noteq> dquote) rest) else None)"

text \<open>
  \<^verbatim>\<open>re.search(r'<a[^>]*>(.*?)</a>', s)\<close>, its group 1. At a start \<^verbatim>\<open><a\<close> the class
  \<^verbatim>\<open>[^>]*\<close> ends at the first \<^verbatim>\<open>>\<close>; the lazy group then grows over characters
  other than a newline until \<^verbatim>\<open></a>\<close> follows. A start that fails is given up for the
  next one.
\<close>

fun lazy_until_close :: "string \<Rightarrow> string option" where
  "lazy_until_close [] = None"
| "lazy_until_close (c # s) =
     (if startswith (c # s) ''</a>'' then Some []
      else if c = newline then None
      else (case lazy_until_close s of None \<Rightarrow> None | Some g \<Rightarrow> Some (c # g)))"

definition match_a_tag_here :: "string \<Rightarrow> string option" where
  "match_a_tag_here s =
     (if startswith s ''<a'' then
        (case after_first (drop 2 s) ''>'' of
           None \<Rightarrow> None
         | Some body \<Rightarrow> lazy_until_close body)
      else None)"

fun re_search_a_tag :: "string \<Rightarrow> string option" where
  "re_search_a_tag [] = None"
| "re_search_a_tag (c # s) =
     (case match_a_tag_here (c # s) of
        Some g \<Rightarrow> Some g
      | None \<Rightarrow> re_search_a_tag s)"

text \<open>\<^verbatim>\<open>s.split(',')\<close>: never empty, the empty string gives one empty item.\<close>

fun split_comma :: "string \<Rightarrow> string list" where
  "split_comma [] = ['''']"
| "split_comma (c # s) =
     (if c = CHR '','' then [] # split_comma s
      else (case split_comma s of [] \<Rightarrow> [c # ''''] | w # ws \<Rightarrow> (c # w) # ws))"

text \<open>
  \<^verbatim>\<open>s.strip()\<close>: the characters below 256 that \<^verbatim>\<open>str.isspace\<close> accepts, the
  next-line and the no-break space among them.
\<close>

definition is_space :: "char \<Rightarrow> bool" where
  "is_space c =
     (c \<in> set [CHR '' '', CHR 0x09, CHR 0x0A, CHR 0x0B, CHR 0x0C, CHR 0x0D,
                CHR 0x1C, CHR 0x1D, CHR 0x1E, CHR 0x1F, CHR 0x85, CHR 0xA0])"

definition strip :: "string \<Rightarrow> string" where
  "strip s = rev (dropWhile is_space (rev (dropWhile is_space s)))"

text \<open>\<^verbatim>\<open>s.split("-")[0]\<close>\<close>

definition year_part :: "string \<Rightarrow> string" where
  "year_part s = takeWhile (\<lambda>c. c \<noteq> CHR ''-'') s"

text \<open>\<^verbatim>\<open>str(n)\<close> for an integer.\<close>

fun digits :: "nat \<Rightarrow> string" where
  "digits n =
     (if n < 10 then [''0123456789'' ! n]
      else digits (n div 10) @ [''0123456789'' ! (n mod 10)])"

declare digits.simps [simp del]

definition str_of_int :: "int \<Rightarrow> string" where
  "str_of_int i = (if i < 0 then CHR ''-'' # digits (nat (- i)) else digits (nat i))"

subsection \<open>The blocks of \<^verbatim>\<open>soundcloud_get_track_metadata\<close>\<close>

text \<open>
  "Attempt to parse album from track's webpage". The f-string of the first call reads
  \<^verbatim>\<open>track_data['permalink_url']\<close>; \<^verbatim>\<open>track_webpage.find\<close> is an attribute of a
  string, not of \<^verbatim>\<open>None\<close>. Neither call is inside a \<^verbatim>\<open>try\<close>. The block leaves
  \<^verbatim>\<open>track_webpage\<close>, \<^verbatim>\<open>start_index\<close> and \<^verbatim>\<open>album_data\<close>, which is \<^verbatim>\<open>None\<close>
  unless the resolve call returned a record.
\<close>

definition album_lookup ::
  "track_data \<Rightarrow> string fetched \<Rightarrow> album_data fetched \<Rightarrow>
   exn + (string \<times> int \<times> album_data option)" where
  "album_lookup track webpage album_fetch =
     (case permalink_url track of
        None \<Rightarrow> Inl (KeyError ''permalink_url'')
      | Some _ \<Rightarrow>
        (case webpage of
           Raised e \<Rightarrow> Inl e
         | NoData \<Rightarrow> Inl AttributeError
         | Data track_webpage \<Rightarrow>
           (let start_index = str_find track_webpage ''<h2>Appears in albums</h2>'' in
            if start_index \<noteq> -1 then
              (case re_search_href (drop (nat start_index) track_webpage) of
                 None \<Rightarrow> Inr (track_webpage, start_index, None)
               | Some album_href \<Rightarrow>
                 (case album_fetch of
                    Raised e \<Rightarrow> Inl e
                  | NoData \<Rightarrow> Inr (track_webpage, start_index, None)
                  | Data album \<Rightarrow> Inr (track_webpage, start_index, Some album)))
            else Inr (track_webpage, start_index, None))))"

text \<open>
  "Artists": the body of the \<^verbatim>\<open>try\<close> computes the items before the loop appends any,
  so \<^verbatim>\<open>except AttributeError: pass\<close> leaves the empty list.
\<close>

definition artist_items :: "track_data \<Rightarrow> exn + string list" where
  "artist_items track =
     (case publisher_metadata track of
        Absent \<Rightarrow> Inr (map strip (split_comma ''''))
      | Null \<Rightarrow> Inl AttributeError
      | Present pm \<Rightarrow>
        (case artist pm of
           Absent \<Rightarrow> Inr (map strip (split_comma ''''))
         | Null \<Rightarrow> Inl AttributeError
         | Present a \<Rightarrow> Inr (map strip (split_comma a))))"

text \<open>\<^verbatim>\<open>track_data.get('user', {}).get('username', '')\<close>\<close>

definition get_username :: "track_data \<Rightarrow> string" where
  "get_username track =
     (case user track of
        None \<Rightarrow> ''''
      | Some u \<Rightarrow> (case username u of None \<Rightarrow> '''' | Some n \<Rightarrow> n))"

definition artists_block :: "(pyval \<Rightarrow> exn + pyval) \<Rightarrow> track_data \<Rightarrow> exn + pyval" where
  "artists_block conv track =
     (case (case artist_items track of
              Inr items \<Rightarrow> Inr items
            | Inl AttributeError \<Rightarrow> Inr []
            | Inl e \<Rightarrow> Inl e) of
        Inl e \<Rightarrow> Inl e
      | Inr items \<Rightarrow>
        (case conv (PyList (map PyStr items)) of
           Inl e \<Rightarrow> Inl e
         | Inr artists \<Rightarrow>
             if py_not artists then Inr (PyStr (get_username track)) else Inr artists))"

text \<open>
  "Track Number": the loop adds one per entry and breaks at the first entry whose id is
  the id of the track; \<^verbatim>\<open>track_data['id']\<close> is read at every entry.
\<close>

fun count_tracks :: "int list \<Rightarrow> int option \<Rightarrow> int \<Rightarrow> exn + int" where
  "count_tracks [] current track_number = Inr track_number"
| "count_tracks (trk # rest) current track_number =
     (case current of
        None \<Rightarrow> Inl (KeyError ''id'')
      | Some i \<Rightarrow>
          if trk = i then Inr (track_number + 1)
          else count_tracks rest current (track_number + 1))"

text \<open>The body of the \<^verbatim>\<open>try\<close>: total_tracks, track_number, album_type.\<close>

definition scan_album :: "album_data option \<Rightarrow> track_data \<Rightarrow> exn + (pyval \<times> pyval \<times> string)" where
  "scan_album album track =
     (case album of
        None \<Rightarrow> Inl TypeError
      | Some a \<Rightarrow>
        (case track_count a of
           None \<Rightarrow> Inl (KeyError ''track_count'')
         | Some total_tracks \<Rightarrow>
           (case tracks a of
              None \<Rightarrow> Inl (KeyError ''tracks'')
            | Some trks \<Rightarrow>
              (case count_tracks trks (track_id track) 0 of
                 Inl e \<Rightarrow> Inl e
               | Inr track_number \<Rightarrow>
                   Inr (PyInt total_tracks, PyInt track_number, ''album'')))))"

text \<open>\<^verbatim>\<open>except (KeyError, TypeError)\<close>\<close>

definition key_or_type_error :: "exn \<Rightarrow> bool" where
  "key_or_type_error e = (case e of KeyError _ \<Rightarrow> True | TypeError \<Rightarrow> True | _ \<Rightarrow> False)"

definition track_number_block ::
  "album_data option \<Rightarrow> track_data \<Rightarrow> exn + (pyval \<times> pyval \<times> string)" where
  "track_number_block album track =
     (case scan_album album track of
        Inr r \<Rightarrow> Inr r
      | Inl e \<Rightarrow>
          if key_or_type_error e then Inr (PyStr ''1'', PyStr ''1'', ''single'')
          else Inl e)"

text \<open>
  "Album Name": \<^verbatim>\<open>track_data['publisher_metadata']['album_name']\<close> is the body of the
  \<^verbatim>\<open>try\<close>; the scrape and the test on its text are in the handler, where
  \<^verbatim>\<open>track_data['title']\<close> is a subscript.
\<close>

definition publisher_album_name :: "track_data \<Rightarrow> exn + pyval" where
  "publisher_album_name track =
     (case publisher_metadata track of
        Absent \<Rightarrow> Inl (KeyError ''publisher_metadata'')
      | Null \<Rightarrow> Inl TypeError
      | Present pm \<Rightarrow>
        (case album_name pm of
           Absent \<Rightarrow> Inl (KeyError ''album_name'')
         | Null \<Rightarrow> Inr PyNone
         | Present a \<Rightarrow> Inr (PyStr a)))"

definition scraped_album_name :: "string \<Rightarrow> int \<Rightarrow> string" where
  "scraped_album_name track_webpage start_index =
     (if start_index \<noteq> -1 then
        (case re_search_a_tag (drop (nat start_index) track_webpage) of
           None \<Rightarrow> ''''
         | Some g \<Rightarrow> g)
      else '''')"

definition album_name_block :: "track_data \<Rightarrow> string \<Rightarrow> int \<Rightarrow> exn + pyval" where
  "album_name_block track track_webpage start_index =
     (case publisher_album_name track of
        Inr v \<Rightarrow> Inr v
      | Inl e \<Rightarrow>
          if key_or_type_error e then
            (let name = scraped_album_name track_webpage start_index in
             if startswith name ''Users who like'' then
               (case title track of
                  None \<Rightarrow> Inl (KeyError ''title'')
                | Some t \<Rightarrow> Inr (PyStr t))
             else Inr (PyStr name))
          else Inl e)"

text \<open>
  "Copyright": the list is built when \<^verbatim>\<open>publisher_metadata\<close> is a non-empty dict with
  a truthy \<^verbatim>\<open>c_line\<close>; otherwise the empty string is handed to
  \<^verbatim>\<open>conv_list_format\<close>.
\<close>

definition copyright_list :: "track_data \<Rightarrow> pyval" where
  "copyright_list track =
     (case publisher_metadata track of
        Present pm \<Rightarrow>
          (case c_line pm of
             Present c \<Rightarrow>
               if c \<noteq> '''' then PyList (map (PyStr \<circ> strip) (split_comma c)) else PyStr ''''
           | _ \<Rightarrow> PyStr '''')
      | _ \<Rightarrow> PyStr '''')"

text \<open>
  \<^verbatim>\<open>str(track_data.get("media", {}).get("transcodings", [{}])[0].get("duration", 0))\<close>:
  the default \<^verbatim>\<open>[{}]\<close> stands in for an absent key only, and \<^verbatim>\<open>[0]\<close> of an empty
  list raises.
\<close>

definition get_length :: "track_data \<Rightarrow> exn + string" where
  "get_length track =
     (case (case media track of
              None \<Rightarrow> None
            | Some m \<Rightarrow> transcodings m) of
        None \<Rightarrow> Inr (str_of_int 0)
      | Some [] \<Rightarrow> Inl IndexError
      | Some (t # _) \<Rightarrow>
          Inr (str_of_int (case duration t of None \<Rightarrow> 0 | Some d \<Rightarrow> d)))"

text \<open>
  \<^verbatim>\<open>release_date.split("-")[0] if release_date else last_modified.split("-")[0]\<close>,
  with \<^verbatim>\<open>""\<close> for an absent key.
\<close>

definition get_release_year :: "track_data \<Rightarrow> string" where
  "get_release_year track =
     (let release_date = (case release_date track of None \<Rightarrow> '''' | Some d \<Rightarrow> d);
          last_modified = (case last_modified track of None \<Rightarrow> '''' | Some d \<Rightarrow> d)
      in if release_date \<noteq> '''' then year_part release_date else year_part last_modified)"

subsection \<open>The result\<close>

text \<open>
  The dict \<^verbatim>\<open>info\<close>. The key \<^verbatim>\<open>label\<close> is set only for a non-empty label name, so
  it is optional; the fields of the record are prefixed to keep them apart from those of
  the track record.
\<close>

record info =
  info_image_url :: string
  info_description :: string
  info_genre :: pyval
  info_label :: "string option"
  info_item_url :: string
  info_release_year :: string
  info_title :: string
  info_track_number :: pyval
  info_total_tracks :: pyval
  info_length :: string
  info_artists :: pyval
  info_album_name :: pyval
  info_album_type :: string
  info_album_artists :: string
  info_copyright :: pyval
  info_is_playable :: pyval
  info_item_id :: pyval

definition opt_str :: "string option \<Rightarrow> string" where
  "opt_str v = (case v of None \<Rightarrow> '''' | Some s \<Rightarrow> s)"

text \<open>
  \<^verbatim>\<open>soundcloud_get_track_metadata(token, item_id)\<close>, in the order of the source. The
  three outcomes of \<^verbatim>\<open>make_call\<close> are those of the track record, of the
  \<^verbatim>\<open>/albums\<close> page and of the resolve call; the last is consulted only when the
  source reaches the call. A track record that is \<^verbatim>\<open>None\<close> fails at its first
  subscript. The token only supplies the parameters of the requests and is left out, as
  is the item id, which only names the track record to fetch.
\<close>

definition soundcloud_get_track_metadata ::
  "(pyval \<Rightarrow> exn + pyval) \<Rightarrow> track_data fetched \<Rightarrow> string fetched \<Rightarrow> album_data fetched \<Rightarrow>
   exn + info" where
  "soundcloud_get_track_metadata conv track_fetch webpage album_fetch =
     (case track_fetch of
        Raised e \<Rightarrow> Inl e
      | NoData \<Rightarrow> Inl TypeError
      | Data track \<Rightarrow>
     (case album_lookup track webpage album_fetch of
        Inl e \<Rightarrow> Inl e
      | Inr (track_webpage, start_index, album) \<Rightarrow>
     (case artists_block conv track of
        Inl e \<Rightarrow> Inl e
      | Inr artists \<Rightarrow>
     (case track_number_block album track of
        Inl e \<Rightarrow> Inl e
      | Inr (total_tracks, track_number, album_type) \<Rightarrow>
     (case album_name_block track track_webpage start_index of
        Inl e \<Rightarrow> Inl e
      | Inr name \<Rightarrow>
     (case conv (copyright_list track) of
        Inl e \<Rightarrow> Inl e
      | Inr copyright_data \<Rightarrow>
     (case conv (PyList [case genre track of None \<Rightarrow> PyList [] | Some g \<Rightarrow> PyStr g]) of
        Inl e \<Rightarrow> Inl e
      | Inr genre_data \<Rightarrow>
     (case get_length track of
        Inl e \<Rightarrow> Inl e
      | Inr len \<Rightarrow>
          Inr \<lparr>info_image_url = opt_str (artwork_url track),
               info_description = opt_str (description track),
               info_genre = genre_data,
               info_label = (case label_name track of
                               None \<Rightarrow> None
                             | Some l \<Rightarrow> if l \<noteq> '''' then Some l else None),
               info_item_url = opt_str (permalink_url track),
               info_release_year = get_release_year track,
               info_title = opt_str (title track),
               info_track_number = track_number,
               info_total_tracks = total_tracks,
               info_length = len,
               info_artists = artists,
               info_album_name = name,
               info_album_type = album_type,
               info_album_artists = get_username track,
               info_copyright = copyright_data,
               info_is_playable = (case streamable track of
                                     None \<Rightarrow> PyStr ''''
                                   | Some b \<Rightarrow> PyBool b),
               info_item_id = (case track_id track of
                                 None \<Rightarrow> PyStr ''''
                                 | Some i \<Rightarrow> PyInt i)\<rparr>))))))))"

section \<open>Predicates of the properties and concrete inputs\<close>

text \<open>
  An entry is encrypted when its protocol, read with the defaults of
  \<^verbatim>\<open>filter_transcodings\<close>, contains the substring \<^verbatim>\<open>encrypted\<close>; an entry without a
  format or without a protocol is not.
\<close>

definition encrypted :: "transcoding \<Rightarrow> bool" where
  "encrypted t = str_in ''encrypted'' (get_protocol t)"

definition hq_usable :: "transcoding \<Rightarrow> bool" where
  "hq_usable t = (\<not> encrypted t \<and> quality t = Some ''hq'')"

definition family_usable :: "string \<Rightarrow> transcoding \<Rightarrow> bool" where
  "family_usable p t = (\<not> encrypted t \<and> startswith (get_preset t) p)"

text \<open>
  The container inference as the specification words it, by substring tests on the
  mime type itself; it is compared with \<open>guess_container_from_mime\<close> below.
\<close>

definition guess_container_spec :: "string \<Rightarrow> string" where
  "guess_container_spec mime =
     (if str_in ''mpeg'' mime then ''mp3''
      else if str_in ''mp4'' mime then ''m4a''
      else if str_in ''ogg'' mime then ''ogg''
      else ''mp3'')"

text \<open>Transcodings and tracks as the service sends them, for the concrete instances.\<close>

definition mk_transcoding :: "string \<Rightarrow> string \<Rightarrow> string \<Rightarrow> string \<Rightarrow> transcoding" where
  "mk_transcoding pre qual mime proto =
     \<lparr>preset = Some pre, quality = Some qual,
      format = Some \<lparr>mime_type = Some mime, protocol = Some proto\<rparr>,
      url = Some ''https://api-v2.soundcloud.com/media/stream'', duration = Some 215000\<rparr>"

definition ex_transcodings :: "transcoding list" where
  "ex_transcodings =
     [mk_transcoding ''aac_1'' ''hq'' ''audio/mp4'' ''ctr-encrypted-hls'',
      mk_transcoding ''opus_0'' ''sq'' ''audio/ogg; codecs=opus'' ''hls'',
      mk_transcoding ''mp3_0'' ''sq'' ''audio/mpeg'' ''progressive'',
      mk_transcoding ''opus_1'' ''hq'' ''audio/ogg; codecs=opus'' ''hls'',
      mk_transcoding ''aac_0'' ''sq'' ''audio/mp4'' ''hls'',
      mk_transcoding ''aac_1'' ''hq'' ''audio/mp4'' ''hls'']"

definition ex_encrypted :: "transcoding list" where
  "ex_encrypted =
     [mk_transcoding ''aac_1'' ''hq'' ''audio/mp4'' ''ctr-encrypted-hls'',
      mk_transcoding ''aac_0'' ''sq'' ''audio/mp4'' ''cbc-encrypted-hls'']"

definition with_transcodings :: "transcoding list \<Rightarrow> track_data" where
  "with_transcodings ts = empty_track\<lparr>media := Some \<lparr>transcodings = Some ts\<rparr>\<rparr>"

definition ex_fallback :: "transcoding list" where
  "ex_fallback =
     [mk_transcoding ''opus_0'' ''sq'' ''audio/ogg; codecs=opus'' ''hls'',
      mk_transcoding ''aac_1'' ''hq'' ''audio/mp4'' ''ctr-encrypted-hls'',
      mk_transcoding ''mp3_0'' ''sq'' ''audio/mpeg'' ''progressive'',
      mk_transcoding ''aac_0'' ''sq'' ''audio/mp4'' ''hls'']"

definition ex_track :: track_data where
  "ex_track = with_transcodings ex_transcodings"

text \<open>
  A list-join convention for the concrete instances, in place of
  \<^verbatim>\<open>conv_list_format\<close>: an empty argument gives the empty string, a list of strings
  is joined with a comma and a space, any other argument raises.
\<close>

fun join_items :: "pyval list \<Rightarrow> exn + string" where
  "join_items [] = Inr ''''"
| "join_items [PyStr s] = Inr s"
| "join_items (PyStr s # rest) =
     (case join_items rest of Inl e \<Rightarrow> Inl e | Inr r \<Rightarrow> Inr (s @ '', '' @ r))"
| "join_items (_ # rest) = Inl TypeError"

definition ex_conv :: "pyval \<Rightarrow> exn + pyval" where
  "ex_conv v =
     (case v of
        PyList items \<Rightarrow> (case join_items items of Inl e \<Rightarrow> Inl e | Inr s \<Rightarrow> Inr (PyStr s))
      | PyStr s \<Rightarrow> if s = '''' then Inr (PyStr '''') else Inl TypeError
      | _ \<Rightarrow> Inl TypeError)"

definition ex_meta_track :: track_data where
  "ex_meta_track =
     empty_track
       \<lparr>track_id := Some 2,
        permalink_url := Some ''https://soundcloud.com/artist/song'',
        title := Some ''Song'',
        user := Some \<lparr>username = Some ''artist''\<rparr>,
        genre := Some ''Ambient'',
        last_modified := Some ''2021-05-01T00:00:00Z'',
        media := Some \<lparr>transcodings = Some ex_transcodings\<rparr>\<rparr>"

definition ex_page_album :: string where
  "ex_page_album =
     ''<h2>Appears in albums</h2><ul><li><a href='' @ [dquote] @ ''/artist/sets/album'' @
     [dquote] @ ''>The Album</a></li></ul>''"

definition ex_page_plain :: string where
  "ex_page_plain = ''<p>This track was not added to any album yet.</p>''"

definition ex_page_no_anchor :: string where
  "ex_page_no_anchor = ''<h2>Appears in albums</h2><ul></ul>''"

definition ex_page_users :: string where
  "ex_page_users =
     ''<h2>Appears in albums</h2><p>none</p><a class='' @ [dquote] @ ''more'' @ [dquote] @
     ''>Users who like similar tracks</a>''"

definition ex_album :: album_data where
  "ex_album = \<lparr>track_count = Some 3, tracks = Some [1, 2, 3]\<rparr>"

text \<open>
  The position the specification gives a track in an album: the 1-based index of the
  first entry with the id of the track, the length of the list when there is none.
\<close>

definition position_of :: "int \<Rightarrow> int list \<Rightarrow> int" where
  "position_of tid trks =
     (if tid \<in> set trks then int (length (takeWhile (\<lambda>x. x \<noteq> tid) trks)) + 1
      else int (length trks))"

text \<open>An album record with \<^verbatim>\<open>track_count\<close> and \<^verbatim>\<open>tracks\<close> was obtained.\<close>

definition album_obtained :: "album_data option \<Rightarrow> bool" where
  "album_obtained album =
     (case album of None \<Rightarrow> False | Some a \<Rightarrow> track_count a \<noteq> None \<and> tracks a \<noteq> None)"

definition ex_track_empty_list :: track_data where
  "ex_track_empty_list = ex_meta_track\<lparr>media := Some \<lparr>transcodings = Some []\<rparr>\<rparr>"

definition ex_track_published :: track_data where
  "ex_track_published =
     ex_meta_track
       \<lparr>publisher_metadata :=
          Present \<lparr>artist = Present ''First , Second'', album_name = Present ''The LP'',
                   c_line = Absent\<rparr>\<rparr>"

text \<open>The key \<^verbatim>\<open>album_name\<close> of \<^verbatim>\<open>publisher_metadata\<close> is present.\<close>

definition album_name_present :: "track_data \<Rightarrow> bool" where
  "album_name_present track =
     (case publisher_metadata track of Present pm \<Rightarrow> album_name pm \<noteq> Absent | _ \<Rightarrow> False)"

text \<open>The track of the instances without its \<^verbatim>\<open>id\<close> key.\<close>

definition ex_track_no_id :: track_data where
  "ex_track_no_id = ex_meta_track\<lparr>track_id := None\<rparr>"

section \<open>String primitives\<close>

lemma startswith_iff: "startswith s p \<longleftrightarrow> (\<exists>r. s = p @ r)"
  by (induction s p rule: startswith.induct) auto

lemma str_in_iff: "str_in sub s \<longleftrightarrow> (\<exists>p r. s = p @ sub @ r)"
proof (induction s)
  case Nil
  then show ?case by auto
next
  case (Cons c s)
  show ?case
  proof
    assume "str_in sub (c # s)"
    then consider "startswith (c # s) sub" | "str_in sub s" by auto
    then show "\<exists>p r. c # s = p @ sub @ r"
    proof cases
      case 1
      then obtain r where "c # s = sub @ r" by (auto simp: startswith_iff)
      then have "c # s = [] @ sub @ r" by simp
      then show ?thesis by blast
    next
      case 2
      then obtain p r where "s = p @ sub @ r" using Cons.IH by auto
      then have "c # s = (c # p) @ sub @ r" by simp
      then show ?thesis by blast
    qed
  next
    assume "\<exists>p r. c # s = p @ sub @ r"
    then obtain p r where pr: "c # s = p @ sub @ r" by auto
    show "str_in sub (c # s)"
    proof (cases p)
      case Nil
      with pr have "startswith (c # s) sub" by (auto simp: startswith_iff)
      then show ?thesis by simp
    next
      case (Cons d p')
      with pr have "s = p' @ sub @ r" by simp
      then have "str_in sub s" using Cons.IH by blast
      then show ?thesis by simp
    qed
  qed
qed

section \<open>The choice of the transcoding\<close>

lemma filter_transcodings_filter:
  "filter_transcodings ts qual pp =
     filter (\<lambda>t. \<not> encrypted t \<and> (qual = None \<or> quality t = qual) \<and>
                 (case pp of None \<Rightarrow> True | Some p \<Rightarrow> startswith (get_preset t) p)) ts"
  by (induction ts) (auto simp: encrypted_def split: option.splits)

lemma filter_hq: "filter_transcodings ts (Some ''hq'') None = filter hq_usable ts"
  by (induction ts) (auto simp: hq_usable_def encrypted_def)

lemma filter_family: "filter_transcodings ts None (Some p) = filter (family_usable p) ts"
  by (induction ts) (auto simp: family_usable_def encrypted_def)

lemma first_of_filter:
  "(case filter P xs of [] \<Rightarrow> d | c # _ \<Rightarrow> Some c) =
   (case find P xs of None \<Rightarrow> d | Some c \<Rightarrow> Some c)"
  by (induction xs) auto

lemma hq_usable_not_empty: "hq_usable t \<Longrightarrow> \<not> dict_empty t"
  by (auto simp: hq_usable_def dict_empty_def)

lemma family_usable_not_empty: "p \<noteq> [] \<Longrightarrow> family_usable p t \<Longrightarrow> \<not> dict_empty t"
  by (cases p) (auto simp: family_usable_def dict_empty_def get_preset_def)

lemma find_SomeD: "find P xs = Some x \<Longrightarrow> P x"
  by (induction xs) (auto split: if_splits)

lemma choose_transcoding_find:
  "choose_transcoding ts hq =
     (case (if hq then find hq_usable ts else None) of
        Some h \<Rightarrow> Some h
      | None \<Rightarrow>
        (case find (family_usable ''aac_'') ts of
           Some a \<Rightarrow> Some a
         | None \<Rightarrow>
           (case find (family_usable ''mp3_'') ts of
              Some m \<Rightarrow> Some m
            | None \<Rightarrow> find (family_usable ''opus_'') ts)))"
proof -
  have fam: "(case filter_transcodings ts None (Some p) of [] \<Rightarrow> d | c # _ \<Rightarrow> Some c) =
      (case find (family_usable p) ts of None \<Rightarrow> d | Some c \<Rightarrow> Some c)" for p d
    by (simp only: filter_family first_of_filter)
  have hqc: "(case filter_transcodings ts (Some ''hq'') None of [] \<Rightarrow> None | c # _ \<Rightarrow> Some c) =
      find hq_usable ts"
    by (simp add: filter_hq first_of_filter split: option.splits)
  show ?thesis
  proof (cases "hq \<and> find hq_usable ts \<noteq> None")
    case True
    then obtain h where h: "find hq_usable ts = Some h" by auto
    have "hq_usable h" by (rule find_SomeD [OF h])
    then have "\<not> dict_empty h" by (rule hq_usable_not_empty)
    with True h show ?thesis
      by (simp add: choose_transcoding_def hqc not_chosen_def)
  next
    case False
    have c: "(if hq then (case filter_transcodings ts (Some ''hq'') None of [] \<Rightarrow> None | c # _ \<Rightarrow> Some c) else None) = None"
      using False by (simp add: hqc)
    show ?thesis
      unfolding choose_transcoding_def c Let_def fam
      using False by (simp add: not_chosen_def split: option.splits)
  qed
qed

lemma find_first: "\<forall>y \<in> set ys. \<not> P y \<Longrightarrow> P x \<Longrightarrow> find P (ys @ x # zs) = Some x"
  by (induction ys) auto

lemma find_None_all: "find P xs = None \<longleftrightarrow> (\<forall>x \<in> set xs. \<not> P x)"
  by (induction xs) auto

lemma find_filter_conj: "find (\<lambda>x. P x \<and> Q x) xs = find Q (filter P xs)"
  by (induction xs) auto

text \<open>
  Claim C1. When the list holds at least one entry that is not encrypted and whose
  quality is \<^verbatim>\<open>hq\<close>, the choice with \<open>hq = True\<close> is the first such entry in list
  order: no entry before it is one, and nothing is asked of its preset.
\<close>

theorem hq_first_match:
  assumes "\<exists>u \<in> set ts. hq_usable u"
  shows "\<exists>pre t post. ts = pre @ t # post \<and> (\<forall>u \<in> set pre. \<not> hq_usable u) \<and> hq_usable t \<and>
           choose_transcoding ts True = Some t"
proof -
  from assms obtain pre t post
    where dec: "ts = pre @ t # post" and t: "hq_usable t" and pre: "\<forall>u \<in> set pre. \<not> hq_usable u"
    using split_list_first_prop [OF assms] by blast
  have "find hq_usable ts = Some t"
    unfolding dec using pre t by (rule find_first)
  then have "choose_transcoding ts True = Some t"
    by (simp add: choose_transcoding_find)
  with dec t pre show ?thesis by blast
qed

text \<open>
  The hypothesis of C1 holds of a list of six transcodings whose first entry is an
  encrypted HQ one.
\<close>

theorem hq_first_match_witness:
  "(\<exists>u \<in> set ex_transcodings. hq_usable u) \<and>
   (\<exists>pre t post. ex_transcodings = pre @ t # post \<and> (\<forall>u \<in> set pre. \<not> hq_usable u) \<and>
      hq_usable t \<and> choose_transcoding ex_transcodings True = Some t)"
proof -
  have h: "\<exists>u \<in> set ex_transcodings. hq_usable u"
    by (simp add: ex_transcodings_def mk_transcoding_def hq_usable_def encrypted_def
        get_protocol_def)
  show ?thesis using h hq_first_match [OF h] by simp
qed

lemma ex_choose_hq:
  "choose_transcoding ex_transcodings True =
     Some (mk_transcoding ''opus_1'' ''hq'' ''audio/ogg; codecs=opus'' ''hls'')"
  by (simp add: choose_transcoding_def ex_transcodings_def mk_transcoding_def get_protocol_def
      get_preset_def not_chosen_def dict_empty_def)

lemma all_encrypted_choose:
  assumes "\<forall>t \<in> set ts. encrypted t"
  shows "choose_transcoding ts hq = None"
proof -
  have "find hq_usable ts = None" "find (family_usable p) ts = None" for p
    using assms by (auto simp: find_None_all hq_usable_def family_usable_def)
  then show ?thesis by (simp add: choose_transcoding_find)
qed

text \<open>
  Claim C2. When the track record was fetched and its transcoding list is empty or holds
  encrypted entries only, \<^verbatim>\<open>soundcloud_download_track\<close> raises, for either value of
  \<open>hq\<close> and any output path: the exception of the emptiness test for the empty list, the
  exception that ends the cascade otherwise. The source has no exception class of its
  own, both are \<^verbatim>\<open>Exception\<close> with a message.
\<close>

theorem no_usable_stream:
  assumes "soundcloud_fetch_track_data reply = Inr track"
    and "\<forall>t \<in> set (get_transcodings track). encrypted t"
  shows "soundcloud_download_track reply item_id hq output_path =
           Inl (Exception (if get_transcodings track = []
                           then ''No transcodings found or track not streamable.''
                           else ''No suitable transcoding found.''))"
  using assms all_encrypted_choose [OF assms(2), of hq]
  by (simp add: soundcloud_download_track_def)

text \<open>
  The hypotheses of C2 hold of a track whose two transcodings are both encrypted.
\<close>

theorem no_usable_stream_witness:
  "soundcloud_fetch_track_data (Reply 200 (Some (with_transcodings ex_encrypted))) =
     Inr (with_transcodings ex_encrypted) \<and>
   list_all encrypted (get_transcodings (with_transcodings ex_encrypted)) \<and>
   soundcloud_download_track (Reply 200 (Some (with_transcodings ex_encrypted))) ''1234'' True None =
     Inl (Exception ''No suitable transcoding found.'')"
proof -
  have f: "soundcloud_fetch_track_data (Reply 200 (Some (with_transcodings ex_encrypted))) =
      Inr (with_transcodings ex_encrypted)"
    by (simp add: soundcloud_fetch_track_data_def)
  have g: "get_transcodings (with_transcodings ex_encrypted) = ex_encrypted"
    by (simp add: get_transcodings_def with_transcodings_def)
  have e: "\<forall>t \<in> set (get_transcodings (with_transcodings ex_encrypted)). encrypted t"
    unfolding g by (simp add: ex_encrypted_def mk_transcoding_def encrypted_def get_protocol_def)
  have n: "get_transcodings (with_transcodings ex_encrypted) \<noteq> []"
    unfolding g by (simp add: ex_encrypted_def)
  show ?thesis
    using f e n no_usable_stream [OF f e, of "''1234''" True None]
    by (simp add: list_all_iff)
qed

text \<open>
  Claim C3. When no HQ entry is taken (\<open>hq\<close> is false, or no entry is both usable and
  HQ), the choice is the first non-encrypted entry whose preset starts with
  \<^verbatim>\<open>aac_\<close>; if there is none, the first with \<^verbatim>\<open>mp3_\<close>; if there is none, the
  first with \<^verbatim>\<open>opus_\<close>; whatever the positions in the list. In particular, when the
  non-encrypted entries are three, with presets \<^verbatim>\<open>opus_0\<close>, \<^verbatim>\<open>mp3_0\<close>,
  \<^verbatim>\<open>aac_0\<close> in this order, the choice with \<open>hq = False\<close> is the third.
\<close>

theorem codec_fallback_order:
  "(\<not> hq \<or> (\<forall>u \<in> set ts. \<not> hq_usable u) \<longrightarrow>
      choose_transcoding ts hq =
        (case find (family_usable ''aac_'') ts of
           Some a \<Rightarrow> Some a
         | None \<Rightarrow>
           (case find (family_usable ''mp3_'') ts of
              Some m \<Rightarrow> Some m
            | None \<Rightarrow> find (family_usable ''opus_'') ts))) \<and>
   (filter (\<lambda>u. \<not> encrypted u) ts = [a, b, c] \<and> preset a = Some ''opus_0'' \<and>
    preset b = Some ''mp3_0'' \<and> preset c = Some ''aac_0'' \<longrightarrow>
      choose_transcoding ts False = Some c)"
proof (intro conjI impI)
  assume "\<not> hq \<or> (\<forall>u \<in> set ts. \<not> hq_usable u)"
  then have "(if hq then find hq_usable ts else None) = None"
    by (auto simp: find_None_all)
  then show "choose_transcoding ts hq =
        (case find (family_usable ''aac_'') ts of
           Some a \<Rightarrow> Some a
         | None \<Rightarrow>
           (case find (family_usable ''mp3_'') ts of
              Some m \<Rightarrow> Some m
            | None \<Rightarrow> find (family_usable ''opus_'') ts))"
    by (simp only: choose_transcoding_find option.case)
next
  assume h: "filter (\<lambda>u. \<not> encrypted u) ts = [a, b, c] \<and> preset a = Some ''opus_0'' \<and>
    preset b = Some ''mp3_0'' \<and> preset c = Some ''aac_0''"
  have "find (family_usable ''aac_'') ts =
      find (\<lambda>u. startswith (get_preset u) ''aac_'') (filter (\<lambda>u. \<not> encrypted u) ts)"
    unfolding family_usable_def by (rule find_filter_conj)
  also have "\<dots> = Some c"
    using h by (simp add: get_preset_def)
  finally show "choose_transcoding ts False = Some c"
    by (simp add: choose_transcoding_find)
qed

text \<open>
  Both hypotheses of C3 hold of a list with an encrypted entry between the Opus and the
  MP3 entry.
\<close>

theorem codec_fallback_order_witness:
  "filter (\<lambda>u. \<not> encrypted u) ex_fallback =
     [mk_transcoding ''opus_0'' ''sq'' ''audio/ogg; codecs=opus'' ''hls'',
      mk_transcoding ''mp3_0'' ''sq'' ''audio/mpeg'' ''progressive'',
      mk_transcoding ''aac_0'' ''sq'' ''audio/mp4'' ''hls''] \<and>
   preset (mk_transcoding ''opus_0'' ''sq'' ''audio/ogg; codecs=opus'' ''hls'') = Some ''opus_0'' \<and>
   preset (mk_transcoding ''mp3_0'' ''sq'' ''audio/mpeg'' ''progressive'') = Some ''mp3_0'' \<and>
   preset (mk_transcoding ''aac_0'' ''sq'' ''audio/mp4'' ''hls'') = Some ''aac_0'' \<and>
   choose_transcoding ex_fallback False =
     Some (mk_transcoding ''aac_0'' ''sq'' ''audio/mp4'' ''hls'')"
proof -
  have f: "filter (\<lambda>u. \<not> encrypted u) ex_fallback =
     [mk_transcoding ''opus_0'' ''sq'' ''audio/ogg; codecs=opus'' ''hls'',
      mk_transcoding ''mp3_0'' ''sq'' ''audio/mpeg'' ''progressive'',
      mk_transcoding ''aac_0'' ''sq'' ''audio/mp4'' ''hls'']"
    by (simp add: ex_fallback_def mk_transcoding_def encrypted_def get_protocol_def)
  have p: "preset (mk_transcoding ''opus_0'' ''sq'' ''audio/ogg; codecs=opus'' ''hls'') = Some ''opus_0''"
    "preset (mk_transcoding ''mp3_0'' ''sq'' ''audio/mpeg'' ''progressive'') = Some ''mp3_0''"
    "preset (mk_transcoding ''aac_0'' ''sq'' ''audio/mp4'' ''hls'') = Some ''aac_0''"
    by (simp_all add: mk_transcoding_def)
  have "choose_transcoding ex_fallback False =
      Some (mk_transcoding ''aac_0'' ''sq'' ''audio/mp4'' ''hls'')"
    using f p
      codec_fallback_order [of False ex_fallback
        "mk_transcoding ''opus_0'' ''sq'' ''audio/ogg; codecs=opus'' ''hls''"
        "mk_transcoding ''mp3_0'' ''sq'' ''audio/mpeg'' ''progressive''"
        "mk_transcoding ''aac_0'' ''sq'' ''audio/mp4'' ''hls''"]
    by blast
  with f p show ?thesis by simp
qed

section \<open>Container inference\<close>

text \<open>
  Claim C4 as stated fails: the mime type \<^verbatim>\<open>audio/MP4\<close> contains none of
  \<^verbatim>\<open>mpeg\<close>, \<^verbatim>\<open>mp4\<close>, \<^verbatim>\<open>ogg\<close>, so the stated rule gives \<^verbatim>\<open>mp3\<close>, but the
  code lower-cases its argument first and returns \<^verbatim>\<open>m4a\<close>.
\<close>

theorem guess_container_counterexample:
  "guess_container_from_mime ''audio/MP4'' \<noteq> guess_container_spec ''audio/MP4''"
  by (simp add: guess_container_from_mime_def guess_container_spec_def lower_def lower_char_def)

text \<open>
  Claim C4, amended. Container inference is total, and its substring tests are made on
  the lower-cased mime type: \<^verbatim>\<open>mp3\<close> if that contains \<^verbatim>\<open>mpeg\<close>, else
  \<^verbatim>\<open>m4a\<close> if it contains \<^verbatim>\<open>mp4\<close>, else \<^verbatim>\<open>ogg\<close> if it contains
  \<^verbatim>\<open>ogg\<close>, else \<^verbatim>\<open>mp3\<close>. The four mime types of the specification map as it
  says.
\<close>

theorem guess_container_lowercased:
  "guess_container_from_mime m =
     (if (\<exists>p r. lower m = p @ ''mpeg'' @ r) then ''mp3''
      else if (\<exists>p r. lower m = p @ ''mp4'' @ r) then ''m4a''
      else if (\<exists>p r. lower m = p @ ''ogg'' @ r) then ''ogg''
      else ''mp3'') \<and>
   guess_container_from_mime ''audio/mpeg'' = ''mp3'' \<and>
   guess_container_from_mime ''audio/mp4'' = ''m4a'' \<and>
   guess_container_from_mime ''audio/ogg'' = ''ogg'' \<and>
   guess_container_from_mime ''audio/x-unknown'' = ''mp3''"
proof (intro conjI)
  show "guess_container_from_mime m =
     (if (\<exists>p r. lower m = p @ ''mpeg'' @ r) then ''mp3''
      else if (\<exists>p r. lower m = p @ ''mp4'' @ r) then ''m4a''
      else if (\<exists>p r. lower m = p @ ''ogg'' @ r) then ''ogg''
      else ''mp3'')"
    unfolding guess_container_from_mime_def Let_def str_in_iff by (rule refl)
qed (simp_all add: guess_container_from_mime_def lower_def lower_char_def)

section \<open>The result of the download\<close>

text \<open>
  With a non-empty output path the function returns the chosen transcoding and the path
  with its extension replaced by the container.
\<close>

lemma download_returns_choice:
  assumes "soundcloud_fetch_track_data reply = Inr track"
    and "choose_transcoding (get_transcodings track) hq = Some c"
    and "log_chosen c = Inr ()" and "p \<noteq> ''''"
  shows "soundcloud_download_track reply item_id hq (Some p) =
           Inr (Some (fst (splitext p) @ ''.'' @ guess_container_from_mime (get_mime_type c), c))"
proof -
  have n: "get_transcodings track \<noteq> []"
  proof
    assume "get_transcodings track = []"
    then have "choose_transcoding (get_transcodings track) hq = None"
      by (simp add: choose_transcoding_def not_chosen_def)
    with assms(2) show False by simp
  qed
  have d: "\<not> dict_empty c"
    using assms(3) by (auto simp: log_chosen_def dict_empty_def)
  show ?thesis
    using assms n d
    by (simp add: soundcloud_download_track_def Let_def split: prod.splits)
qed

text \<open>Without an output path the function never returns a pair.\<close>

lemma download_no_output_path:
  "soundcloud_download_track reply item_id hq None \<noteq> Inr (Some r)"
  by (simp add: soundcloud_download_track_def Let_def split: sum.splits option.splits prod.splits)

text \<open>
  Claim C5 does not hold of the code: with no output path, the call on a track with a
  usable transcoding returns \<^verbatim>\<open>None\<close>, not the pair of the synthesised path
  \<^verbatim>\<open>soundcloud_1234.ogg\<close> and the transcoding. With an output path the same call
  returns the path with its extension replaced.
\<close>

theorem download_track_returns_none:
  "soundcloud_download_track (Reply 200 (Some ex_track)) ''1234'' True None = Inr None \<and>
   soundcloud_download_track (Reply 200 (Some ex_track)) ''1234'' True (Some ''out/song.tmp'') =
     Inr (Some (''out/song.ogg'',
                mk_transcoding ''opus_1'' ''hq'' ''audio/ogg; codecs=opus'' ''hls''))"
proof -
  have g: "get_transcodings ex_track = ex_transcodings"
    by (simp add: get_transcodings_def ex_track_def with_transcodings_def)
  have n: "ex_transcodings \<noteq> []" by (simp add: ex_transcodings_def)
  have f: "soundcloud_fetch_track_data (Reply 200 (Some ex_track)) = Inr ex_track"
    by (simp add: soundcloud_fetch_track_data_def)
  have l: "log_chosen (mk_transcoding ''opus_1'' ''hq'' ''audio/ogg; codecs=opus'' ''hls'') = Inr ()"
    by (simp add: log_chosen_def mk_transcoding_def)
  have d: "\<not> dict_empty (mk_transcoding ''opus_1'' ''hq'' ''audio/ogg; codecs=opus'' ''hls'')"
    by (simp add: dict_empty_def mk_transcoding_def)
  have c: "guess_container_from_mime
      (get_mime_type (mk_transcoding ''opus_1'' ''hq'' ''audio/ogg; codecs=opus'' ''hls'')) = ''ogg''"
    by (simp add: guess_container_from_mime_def get_mime_type_def mk_transcoding_def lower_def
        lower_char_def)
  have s: "splitext ''out/song.tmp'' = (''out/song'', ''.tmp'')"
    by (simp add: splitext_def Let_def)
  show ?thesis
    by (simp add: soundcloud_download_track_def f g n ex_choose_hq l d c s)
qed

section \<open>The metadata of a track\<close>

lemma metadata_fields:
  assumes "soundcloud_get_track_metadata conv (Data track) webpage album_fetch = Inr i"
  obtains page si alb tot num ty where
    "album_lookup track webpage album_fetch = Inr (page, si, alb)"
    "track_number_block alb track = Inr (tot, num, ty)"
    "album_name_block track page si = Inr (info_album_name i)"
    "get_length track = Inr (info_length i)"
    "info_track_number i = num" "info_total_tracks i = tot" "info_album_type i = ty"
  using assms unfolding soundcloud_get_track_metadata_def
  by (auto split: sum.splits prod.splits)

lemma count_tracks_position:
  "count_tracks trks (Some tid) k = Inr (k + position_of tid trks)"
  by (induction trks arbitrary: k) (auto simp: position_of_def)

lemma track_number_block_album:
  assumes "track_count album = Some n" "tracks album = Some trks" "track_id track = Some tid"
  shows "track_number_block (Some album) track =
           Inr (PyInt n, PyInt (position_of tid trks), ''album'')"
  using assms by (simp add: track_number_block_def scan_album_def count_tracks_position)

lemma track_number_block_single:
  assumes "\<not> album_obtained alb"
  shows "track_number_block alb track = Inr (PyStr ''1'', PyStr ''1'', ''single'')"
  using assms
  by (auto simp: track_number_block_def scan_album_def album_obtained_def key_or_type_error_def
      split: option.splits)

lemma ex_meta_track_fields:
  "track_id ex_meta_track = Some 2"
  "permalink_url ex_meta_track = Some ''https://soundcloud.com/artist/song''"
  "title ex_meta_track = Some ''Song''"
  "publisher_metadata ex_meta_track = Absent"
  "genre ex_meta_track = Some ''Ambient''"
  "media ex_meta_track = Some \<lparr>transcodings = Some ex_transcodings\<rparr>"
  by (simp_all add: ex_meta_track_def empty_track_def)

lemma ex_lookup_album:
  "album_lookup ex_meta_track (Data ex_page_album) (Data ex_album) =
     Inr (ex_page_album, 0, Some ex_album)"
  by (simp add: album_lookup_def ex_meta_track_fields ex_page_album_def re_search_href_def
      dquote_def)

lemma ex_artists: "artists_block ex_conv ex_meta_track = Inr (PyStr ''artist'')"
  by (simp add: artists_block_def artist_items_def ex_meta_track_fields ex_conv_def py_not_def
      strip_def get_username_def ex_meta_track_def empty_track_def)

lemma ex_copyright: "ex_conv (copyright_list ex_meta_track) = Inr (PyStr '''')"
  by (simp add: copyright_list_def ex_meta_track_fields ex_conv_def)

lemma ex_genre:
  "ex_conv (PyList [case genre ex_meta_track of None \<Rightarrow> PyList [] | Some g \<Rightarrow> PyStr g]) =
     Inr (PyStr ''Ambient'')"
  by (simp add: ex_meta_track_fields ex_conv_def)

lemma ex_length: "get_length ex_meta_track = Inr ''215000''"
  by (simp add: get_length_def ex_meta_track_fields ex_transcodings_def mk_transcoding_def
      str_of_int_def digits.simps)

lemma ex_scraped_album:
  "scraped_album_name ex_page_album 0 = ''The Album''"
  by (simp add: scraped_album_name_def ex_page_album_def match_a_tag_here_def dquote_def
      newline_def)

lemma ex_scraped_users:
  "scraped_album_name ex_page_users 0 = ''Users who like similar tracks''"
  by (simp add: scraped_album_name_def ex_page_users_def match_a_tag_here_def dquote_def
      newline_def)

lemma ex_album_fields: "track_count ex_album = Some 3" "tracks ex_album = Some [1, 2, 3]"
  by (simp_all add: ex_album_def)

lemma ex_track_number:
  "track_number_block (Some ex_album) ex_meta_track = Inr (PyInt 3, PyInt 2, ''album'')"
  using track_number_block_album [OF ex_album_fields ex_meta_track_fields(1)]
  by (simp add: position_of_def)

lemma ex_album_name_album:
  "album_name_block ex_meta_track ex_page_album 0 = Inr (PyStr ''The Album'')"
  by (simp add: album_name_block_def publisher_album_name_def ex_meta_track_fields
      key_or_type_error_def ex_scraped_album)

lemma ex_returns_album:
  "\<exists>i. soundcloud_get_track_metadata ex_conv (Data ex_meta_track) (Data ex_page_album)
         (Data ex_album) = Inr i"
  by (simp add: soundcloud_get_track_metadata_def ex_lookup_album ex_artists ex_copyright
      ex_genre ex_length ex_track_number ex_album_name_album)

lemma position_of_first:
  "tid \<notin> set pre \<Longrightarrow> position_of tid (pre @ tid # post) = int (length pre) + 1"
  by (induction pre) (auto simp: position_of_def)

lemma position_of_absent: "tid \<notin> set trks \<Longrightarrow> position_of tid trks = int (length trks)"
  by (simp add: position_of_def)

text \<open>
  Claim C7. For an album record with \<^verbatim>\<open>track_count\<close> and \<^verbatim>\<open>tracks\<close> and a track with
  an id, the scan gives the 1-based position of the first entry with the id of the
  track, or the length of the list when no entry has it; \<^verbatim>\<open>total_tracks\<close> is the
  \<^verbatim>\<open>track_count\<close> of the album and \<^verbatim>\<open>album_type\<close> is \<^verbatim>\<open>album\<close>. These are the
  fields of the result whenever the lookup obtained this album and the function returns.
\<close>

theorem track_number_in_album:
  assumes "track_count album = Some n" and "tracks album = Some trks"
    and "track_id track = Some tid"
  shows "track_number_block (Some album) track =
           Inr (PyInt n, PyInt (position_of tid trks), ''album'') \<and>
         (album_lookup track webpage album_fetch = Inr (page, start_index, Some album) \<and>
          soundcloud_get_track_metadata conv (Data track) webpage album_fetch = Inr i \<longrightarrow>
            info_track_number i = PyInt (position_of tid trks) \<and>
            info_total_tracks i = PyInt n \<and> info_album_type i = ''album'')"
proof (intro conjI impI)
  show b: "track_number_block (Some album) track =
      Inr (PyInt n, PyInt (position_of tid trks), ''album'')"
    using assms by (rule track_number_block_album)
  assume h: "album_lookup track webpage album_fetch = Inr (page, start_index, Some album) \<and>
    soundcloud_get_track_metadata conv (Data track) webpage album_fetch = Inr i"
  then have r: "soundcloud_get_track_metadata conv (Data track) webpage album_fetch = Inr i"
    by simp
  from r obtain page' si' alb tot num ty where
    f: "album_lookup track webpage album_fetch = Inr (page', si', alb)"
      "track_number_block alb track = Inr (tot, num, ty)"
      "info_track_number i = num" "info_total_tracks i = tot" "info_album_type i = ty"
    by (rule metadata_fields)
  from f(1) h have "alb = Some album" by simp
  with f b show "info_track_number i = PyInt (position_of tid trks)"
    "info_total_tracks i = PyInt n" "info_album_type i = ''album''"
    by simp_all
qed

text \<open>
  The instance of the specification: the album with tracks 1, 2, 3 and
  \<^verbatim>\<open>track_count\<close> 3, the track with id 2.
\<close>

theorem track_number_in_album_witness:
  "track_count ex_album = Some 3 \<and> tracks ex_album = Some [1, 2, 3] \<and>
   track_id ex_meta_track = Some 2 \<and>
   album_lookup ex_meta_track (Data ex_page_album) (Data ex_album) =
     Inr (ex_page_album, 0, Some ex_album) \<and>
   (\<exists>i. soundcloud_get_track_metadata ex_conv (Data ex_meta_track) (Data ex_page_album)
          (Data ex_album) = Inr i \<and>
        info_track_number i = PyInt 2 \<and> info_total_tracks i = PyInt 3 \<and>
        info_album_type i = ''album'')"
proof -
  obtain i where i: "soundcloud_get_track_metadata ex_conv (Data ex_meta_track)
      (Data ex_page_album) (Data ex_album) = Inr i"
    using ex_returns_album by blast
  have p: "position_of 2 [1, 2, 3] = 2" by (simp add: position_of_def)
  have "info_track_number i = PyInt 2 \<and> info_total_tracks i = PyInt 3 \<and>
      info_album_type i = ''album''"
    using track_number_in_album [OF ex_album_fields ex_meta_track_fields(1),
        of "Data ex_page_album" "Data ex_album" ex_page_album 0 ex_conv i]
      ex_lookup_album i p
    by simp
  with i show ?thesis
    using ex_album_fields ex_meta_track_fields(1) ex_lookup_album by blast
qed

lemma album_lookup_D:
  assumes "album_lookup track webpage album_fetch = Inr (page, si, alb)"
  shows "webpage = Data page \<and> si = str_find page ''<h2>Appears in albums</h2>''"
  using assms unfolding album_lookup_def Let_def
  by (auto split: option.splits fetched.splits if_splits)

lemma album_name_block_present:
  assumes "publisher_metadata track = Present pm" and "album_name pm = Present a"
  shows "album_name_block track page si = Inr (PyStr a)"
  using assms by (simp add: album_name_block_def publisher_album_name_def)

lemma album_name_block_users:
  assumes "\<not> album_name_present track" and "si \<noteq> -1"
    and "re_search_a_tag (drop (nat si) page) = Some g" and "startswith g ''Users who like''"
  shows "album_name_block track page si =
           (case title track of None \<Rightarrow> Inl (KeyError ''title'') | Some t \<Rightarrow> Inr (PyStr t))"
proof -
  have "\<exists>e. publisher_album_name track = Inl e \<and> key_or_type_error e"
    using assms(1)
    by (auto simp: album_name_present_def publisher_album_name_def key_or_type_error_def
        split: field.splits)
  moreover have "scraped_album_name page si = g"
    using assms(2,3) by (simp add: scraped_album_name_def)
  ultimately show ?thesis
    using assms(4) by (auto simp: album_name_block_def)
qed

text \<open>
  Claim C8. Whenever the function returns: an \<^verbatim>\<open>album_name\<close> that is present in
  \<^verbatim>\<open>publisher_metadata\<close> is the \<^verbatim>\<open>album_name\<close> of the result, whatever the page
  and whether or not the marker was found in it; and when that key is not present, the
  marker was found and the text of the first anchor after it starts with
  \<^verbatim>\<open>Users who like\<close>, the \<^verbatim>\<open>album_name\<close> of the result is the title of the track.
\<close>

theorem album_name_precedence:
  assumes "soundcloud_get_track_metadata conv (Data track) webpage album_fetch = Inr i"
    and "album_lookup track webpage album_fetch = Inr (page, start_index, alb)"
  shows "(publisher_metadata track = Present pm \<and> album_name pm = Present a \<longrightarrow>
            info_album_name i = PyStr a) \<and>
         (\<not> album_name_present track \<and> start_index \<noteq> -1 \<and>
          re_search_a_tag (drop (nat start_index) page) = Some g \<and>
          startswith g ''Users who like'' \<longrightarrow>
            (\<exists>t. title track = Some t \<and> info_album_name i = PyStr t))"
proof -
  from assms(1) obtain page' si' alb' where
    f: "album_lookup track webpage album_fetch = Inr (page', si', alb')"
      "album_name_block track page' si' = Inr (info_album_name i)"
    by (rule metadata_fields)
  from f(1) assms(2) have e: "page' = page" "si' = start_index" by simp_all
  show ?thesis
  proof (intro conjI impI)
    assume "publisher_metadata track = Present pm \<and> album_name pm = Present a"
    then have "album_name_block track page start_index = Inr (PyStr a)"
      by (simp add: album_name_block_present)
    with f(2) e show "info_album_name i = PyStr a" by simp
  next
    assume h: "\<not> album_name_present track \<and> start_index \<noteq> -1 \<and>
          re_search_a_tag (drop (nat start_index) page) = Some g \<and>
          startswith g ''Users who like''"
    then have "album_name_block track page start_index =
        (case title track of None \<Rightarrow> Inl (KeyError ''title'') | Some t \<Rightarrow> Inr (PyStr t))"
      by (simp add: album_name_block_users)
    with f(2) e show "\<exists>t. title track = Some t \<and> info_album_name i = PyStr t"
      by (auto split: option.splits)
  qed
qed

lemma ex_track_published_fields:
  "track_id ex_track_published = Some 2"
  "permalink_url ex_track_published = Some ''https://soundcloud.com/artist/song''"
  "title ex_track_published = Some ''Song''"
  "publisher_metadata ex_track_published =
     Present \<lparr>artist = Present ''First , Second'', album_name = Present ''The LP'',
              c_line = Absent\<rparr>"
  "genre ex_track_published = Some ''Ambient''"
  "media ex_track_published = Some \<lparr>transcodings = Some ex_transcodings\<rparr>"
  by (simp_all add: ex_track_published_def ex_meta_track_def empty_track_def)

lemma ex_lookup_users_published:
  "album_lookup ex_track_published (Data ex_page_users) NoData = Inr (ex_page_users, 0, None)"
  by (simp add: album_lookup_def ex_track_published_fields ex_page_users_def re_search_href_def
      dquote_def)

lemma ex_lookup_users_nodata:
  "album_lookup ex_meta_track (Data ex_page_users) NoData = Inr (ex_page_users, 0, None)"
  by (simp add: album_lookup_def ex_meta_track_fields ex_page_users_def re_search_href_def
      dquote_def)

lemma ex_artists_published:
  "artists_block ex_conv ex_track_published = Inr (PyStr ''First, Second'')"
  by (simp add: artists_block_def artist_items_def ex_track_published_fields ex_conv_def
      py_not_def strip_def is_space_def)

lemma ex_copyright_published: "ex_conv (copyright_list ex_track_published) = Inr (PyStr '''')"
  by (simp add: copyright_list_def ex_track_published_fields ex_conv_def)

lemma ex_genre_published:
  "ex_conv (PyList [case genre ex_track_published of None \<Rightarrow> PyList [] | Some g \<Rightarrow> PyStr g]) =
     Inr (PyStr ''Ambient'')"
  by (simp add: ex_track_published_fields ex_conv_def)

lemma ex_length_published: "get_length ex_track_published = Inr ''215000''"
  by (simp add: get_length_def ex_track_published_fields ex_transcodings_def mk_transcoding_def
      str_of_int_def digits.simps)

lemma ex_single:
  "track_number_block None track = Inr (PyStr ''1'', PyStr ''1'', ''single'')"
  by (simp add: track_number_block_single album_obtained_def)

lemma ex_returns_published:
  "\<exists>i. soundcloud_get_track_metadata ex_conv (Data ex_track_published) (Data ex_page_users)
         NoData = Inr i"
  by (simp add: soundcloud_get_track_metadata_def ex_lookup_users_published
      ex_artists_published ex_copyright_published ex_genre_published ex_length_published
      ex_single album_name_block_present [OF ex_track_published_fields(4)])

lemma ex_search_users:
  "re_search_a_tag (drop (nat 0) ex_page_users) = Some ''Users who like similar tracks''"
  by (simp add: ex_page_users_def match_a_tag_here_def dquote_def newline_def)

lemma ex_not_present: "\<not> album_name_present ex_meta_track"
  by (simp add: album_name_present_def ex_meta_track_fields)

lemma ex_album_name_users:
  "album_name_block ex_meta_track ex_page_users 0 = Inr (PyStr ''Song'')"
  using album_name_block_users [OF ex_not_present _ ex_search_users]
  by (simp add: ex_meta_track_fields)

lemma ex_returns_users:
  "\<exists>i. soundcloud_get_track_metadata ex_conv (Data ex_meta_track) (Data ex_page_users)
         NoData = Inr i"
  by (simp add: soundcloud_get_track_metadata_def ex_lookup_users_nodata ex_artists
      ex_copyright ex_genre ex_length ex_single ex_album_name_users)

text \<open>
  Both parts of C8 at a page whose marker is found and whose first anchor after it reads
  \<^verbatim>\<open>Users who like similar tracks\<close>: a track that publishes the album name
  \<^verbatim>\<open>The LP\<close> keeps it, a track without \<^verbatim>\<open>publisher_metadata\<close> gets its title.
\<close>

theorem album_name_precedence_witness:
  "album_lookup ex_track_published (Data ex_page_users) NoData = Inr (ex_page_users, 0, None) \<and>
   (\<exists>i. soundcloud_get_track_metadata ex_conv (Data ex_track_published) (Data ex_page_users)
          NoData = Inr i \<and> info_album_name i = PyStr ''The LP'') \<and>
   \<not> album_name_present ex_meta_track \<and>
   re_search_a_tag (drop (nat 0) ex_page_users) = Some ''Users who like similar tracks'' \<and>
   startswith ''Users who like similar tracks'' ''Users who like'' \<and>
   (\<exists>i. soundcloud_get_track_metadata ex_conv (Data ex_meta_track) (Data ex_page_users)
          NoData = Inr i \<and> info_album_name i = PyStr ''Song'')"
proof -
  obtain i where i: "soundcloud_get_track_metadata ex_conv (Data ex_track_published)
      (Data ex_page_users) NoData = Inr i"
    using ex_returns_published by blast
  have a: "info_album_name i = PyStr ''The LP''"
    using album_name_precedence [OF i ex_lookup_users_published,
        of "\<lparr>artist = Present ''First , Second'', album_name = Present ''The LP'',
              c_line = Absent\<rparr>" "''The LP''"]
      ex_track_published_fields(4)
    by simp
  obtain j where j: "soundcloud_get_track_metadata ex_conv (Data ex_meta_track)
      (Data ex_page_users) NoData = Inr j"
    using ex_returns_users by blast
  have s: "startswith ''Users who like similar tracks'' ''Users who like''" by simp
  have b: "info_album_name j = PyStr ''Song''"
    using album_name_precedence [OF j ex_lookup_users_nodata,
        of _ _ "''Users who like similar tracks''"]
      ex_not_present ex_search_users s ex_meta_track_fields(3)
    by simp
  show ?thesis
    using i a j b s ex_lookup_users_published ex_not_present ex_search_users by blast
qed

lemma ex_track_no_id_fields:
  "track_id ex_track_no_id = None"
  "permalink_url ex_track_no_id = Some ''https://soundcloud.com/artist/song''"
  "title ex_track_no_id = Some ''Song''"
  "publisher_metadata ex_track_no_id = Absent"
  "genre ex_track_no_id = Some ''Ambient''"
  "media ex_track_no_id = Some \<lparr>transcodings = Some ex_transcodings\<rparr>"
  "user ex_track_no_id = Some \<lparr>username = Some ''artist''\<rparr>"
  "artwork_url ex_track_no_id = None" "description ex_track_no_id = None"
  "label_name ex_track_no_id = None" "release_date ex_track_no_id = None"
  "last_modified ex_track_no_id = Some ''2021-05-01T00:00:00Z''"
  "streamable ex_track_no_id = None"
  by (simp_all add: ex_track_no_id_def ex_meta_track_def empty_track_def)

text \<open>
  Claim C10 as stated fails: for a track record without an \<^verbatim>\<open>id\<close> key the album
  record with \<^verbatim>\<open>track_count\<close> 3 and tracks 1, 2, 3 is obtained, the subscript
  \<^verbatim>\<open>track_data['id']\<close> raises \<^verbatim>\<open>KeyError\<close> at the first entry, the handler of
  the block catches it, and track_number and total_tracks are the strings \<^verbatim>\<open>1\<close>
  and \<^verbatim>\<open>1\<close>.
\<close>

theorem track_number_types_counterexample:
  "album_lookup ex_track_no_id (Data ex_page_album) (Data ex_album) =
     Inr (ex_page_album, 0, Some ex_album) \<and>
   album_obtained (Some ex_album) \<and>
   soundcloud_get_track_metadata ex_conv (Data ex_track_no_id) (Data ex_page_album)
     (Data ex_album) =
     Inr \<lparr>info_image_url = '''', info_description = '''', info_genre = PyStr ''Ambient'',
          info_label = None, info_item_url = ''https://soundcloud.com/artist/song'',
          info_release_year = ''2021'', info_title = ''Song'',
          info_track_number = PyStr ''1'', info_total_tracks = PyStr ''1'',
          info_length = ''215000'', info_artists = PyStr ''artist'',
          info_album_name = PyStr ''The Album'', info_album_type = ''single'',
          info_album_artists = ''artist'', info_copyright = PyStr '''',
          info_is_playable = PyStr '''', info_item_id = PyStr ''''\<rparr>"
proof (intro conjI)
  show l: "album_lookup ex_track_no_id (Data ex_page_album) (Data ex_album) =
      Inr (ex_page_album, 0, Some ex_album)"
    by (simp add: album_lookup_def ex_track_no_id_fields ex_page_album_def re_search_href_def
        dquote_def)
  show "album_obtained (Some ex_album)"
    by (simp add: album_obtained_def ex_album_fields)
  have a: "artists_block ex_conv ex_track_no_id = Inr (PyStr ''artist'')"
    by (simp add: artists_block_def artist_items_def ex_track_no_id_fields ex_conv_def
        py_not_def strip_def get_username_def)
  have t: "track_number_block (Some ex_album) ex_track_no_id =
      Inr (PyStr ''1'', PyStr ''1'', ''single'')"
    by (simp add: track_number_block_def scan_album_def ex_album_fields ex_track_no_id_fields
        key_or_type_error_def)
  have n: "album_name_block ex_track_no_id ex_page_album 0 = Inr (PyStr ''The Album'')"
    by (simp add: album_name_block_def publisher_album_name_def ex_track_no_id_fields
        key_or_type_error_def ex_scraped_album)
  have c: "ex_conv (copyright_list ex_track_no_id) = Inr (PyStr '''')"
    by (simp add: copyright_list_def ex_track_no_id_fields ex_conv_def)
  have g: "ex_conv (PyList [PyStr ''Ambient'']) = Inr (PyStr ''Ambient'')"
    by (simp add: ex_conv_def)
  have e: "get_length ex_track_no_id = Inr ''215000''"
    by (simp add: get_length_def ex_track_no_id_fields ex_transcodings_def mk_transcoding_def
        str_of_int_def digits.simps)
  have y: "get_release_year ex_track_no_id = ''2021''"
    by (simp add: get_release_year_def year_part_def ex_track_no_id_fields)
  have u: "get_username ex_track_no_id = ''artist''"
    by (simp add: get_username_def ex_track_no_id_fields)
  show "soundcloud_get_track_metadata ex_conv (Data ex_track_no_id) (Data ex_page_album)
     (Data ex_album) =
     Inr \<lparr>info_image_url = '''', info_description = '''', info_genre = PyStr ''Ambient'',
          info_label = None, info_item_url = ''https://soundcloud.com/artist/song'',
          info_release_year = ''2021'', info_title = ''Song'',
          info_track_number = PyStr ''1'', info_total_tracks = PyStr ''1'',
          info_length = ''215000'', info_artists = PyStr ''artist'',
          info_album_name = PyStr ''The Album'', info_album_type = ''single'',
          info_album_artists = ''artist'', info_copyright = PyStr '''',
          info_is_playable = PyStr '''', info_item_id = PyStr ''''\<rparr>"
    by (simp add: soundcloud_get_track_metadata_def l a t n c g e y u opt_str_def
        ex_track_no_id_fields)
qed

text \<open>
  Claim C10, amended. For a track record with an id, whenever the function returns:
  track_number and total_tracks are both the string \<^verbatim>\<open>1\<close> exactly when no album
  record with \<^verbatim>\<open>track_count\<close> and \<^verbatim>\<open>tracks\<close> was obtained, and both are integers
  when one was.
\<close>

theorem track_number_types:
  assumes "soundcloud_get_track_metadata conv (Data track) webpage album_fetch = Inr i"
    and "album_lookup track webpage album_fetch = Inr (page, start_index, alb)"
    and "track_id track = Some tid"
  shows "((info_track_number i = PyStr ''1'' \<and> info_total_tracks i = PyStr ''1'') \<longleftrightarrow>
            \<not> album_obtained alb) \<and>
         (album_obtained alb \<longrightarrow>
            (\<exists>k n. info_track_number i = PyInt k \<and> info_total_tracks i = PyInt n))"
proof -
  from assms(1) obtain page' si' alb' tot num ty where
    f: "album_lookup track webpage album_fetch = Inr (page', si', alb')"
      "track_number_block alb' track = Inr (tot, num, ty)"
      "info_track_number i = num" "info_total_tracks i = tot"
    by (rule metadata_fields)
  from f(1) assms(2) have e: "alb' = alb" by simp
  show ?thesis
  proof (cases "album_obtained alb")
    case True
    then obtain a n trks where a: "alb = Some a" "track_count a = Some n" "tracks a = Some trks"
      by (auto simp: album_obtained_def split: option.splits)
    have "track_number_block alb track = Inr (PyInt n, PyInt (position_of tid trks), ''album'')"
      unfolding a(1) using a(2,3) assms(3) by (rule track_number_block_album)
    with f e have "info_track_number i = PyInt (position_of tid trks)"
      "info_total_tracks i = PyInt n"
      by auto
    with True show ?thesis by simp
  next
    case False
    then have "track_number_block alb track = Inr (PyStr ''1'', PyStr ''1'', ''single'')"
      by (rule track_number_block_single)
    with f e have "info_track_number i = PyStr ''1''" "info_total_tracks i = PyStr ''1''"
      by auto
    with False show ?thesis by simp
  qed
qed

text \<open>
  The same track with the album page, where the result has the integers 2 and 3, and
  with a page without the marker, where it has the strings.
\<close>

theorem track_number_types_witness:
  "track_id ex_meta_track = Some 2 \<and> album_obtained (Some ex_album) \<and>
   (\<exists>i. soundcloud_get_track_metadata ex_conv (Data ex_meta_track) (Data ex_page_album)
          (Data ex_album) = Inr i \<and>
        info_track_number i = PyInt 2 \<and> info_total_tracks i = PyInt 3) \<and>
   \<not> album_obtained None \<and>
   (\<exists>i. soundcloud_get_track_metadata ex_conv (Data ex_meta_track) (Data ex_page_users)
          NoData = Inr i \<and>
        info_track_number i = PyStr ''1'' \<and> info_total_tracks i = PyStr ''1'')"
proof -
  obtain i where i: "soundcloud_get_track_metadata ex_conv (Data ex_meta_track)
      (Data ex_page_album) (Data ex_album) = Inr i"
    using ex_returns_album by blast
  have o: "album_obtained (Some ex_album)"
    by (simp add: album_obtained_def ex_album_fields)
  have "\<exists>k n. info_track_number i = PyInt k \<and> info_total_tracks i = PyInt n"
    using track_number_types [OF i ex_lookup_album ex_meta_track_fields(1)] o by blast
  moreover have "info_track_number i = PyInt 2 \<and> info_total_tracks i = PyInt 3"
    using i
    by (auto simp: soundcloud_get_track_metadata_def ex_lookup_album ex_artists ex_copyright
        ex_genre ex_length ex_track_number ex_album_name_album)
  ultimately have a: "info_track_number i = PyInt 2 \<and> info_total_tracks i = PyInt 3" by simp
  obtain j where j: "soundcloud_get_track_metadata ex_conv (Data ex_meta_track)
      (Data ex_page_users) NoData = Inr j"
    using ex_returns_users by blast
  have n: "\<not> album_obtained None" by (simp add: album_obtained_def)
  have b: "info_track_number j = PyStr ''1'' \<and> info_total_tracks j = PyStr ''1''"
    using track_number_types [OF j ex_lookup_users_nodata ex_meta_track_fields(1)] n by blast
  show ?thesis
    using i a j b o n ex_meta_track_fields(1) by blast
qed

section \<open>Failures of the optional fetches\<close>

text \<open>
  Claim C6 as stated fails: when the transport raises on the fetch of the
  \<^verbatim>\<open>/albums\<close> page, the exception reaches the caller, and when it returns
  \<^verbatim>\<open>None\<close> the call \<^verbatim>\<open>track_webpage.find\<close> raises; in neither case is a result
  with the defaults returned.
\<close>

theorem scrape_failure_counterexample:
  "soundcloud_get_track_metadata ex_conv (Data ex_meta_track) (Raised RequestException) NoData =
     Inl RequestException \<and>
   soundcloud_get_track_metadata ex_conv (Data ex_meta_track) NoData NoData =
     Inl AttributeError"
  by (simp add: soundcloud_get_track_metadata_def album_lookup_def ex_meta_track_fields)

text \<open>
  Claim C6, amended. For a track with a permalink: when the page is returned as text, a
  missing marker, a missing anchor href or a resolve call that returns no record leaves
  no album, the lookup raises nothing, and a result has the defaults \<^verbatim>\<open>1\<close>,
  \<^verbatim>\<open>1\<close>, \<^verbatim>\<open>single\<close>; an exception raised by the fetch of the page, or by the
  resolve call once marker and href were found, is the outcome of the function.
\<close>

theorem scrape_failures:
  assumes "permalink_url track = Some u"
  shows "soundcloud_get_track_metadata conv (Data track) (Raised e) album_fetch = Inl e \<and>
         (str_find page ''<h2>Appears in albums</h2>'' \<noteq> -1 \<and>
          re_search_href (drop (nat (str_find page ''<h2>Appears in albums</h2>'')) page) = Some h \<longrightarrow>
            soundcloud_get_track_metadata conv (Data track) (Data page) (Raised e) = Inl e) \<and>
         (str_find page ''<h2>Appears in albums</h2>'' = -1 \<or>
          re_search_href (drop (nat (str_find page ''<h2>Appears in albums</h2>'')) page) = None \<or>
          album_fetch = NoData \<longrightarrow>
            album_lookup track (Data page) album_fetch =
              Inr (page, str_find page ''<h2>Appears in albums</h2>'', None) \<and>
            (\<forall>i. soundcloud_get_track_metadata conv (Data track) (Data page) album_fetch = Inr i \<longrightarrow>
               info_track_number i = PyStr ''1'' \<and> info_total_tracks i = PyStr ''1'' \<and>
               info_album_type i = ''single''))"
proof (intro conjI impI allI)
  show "soundcloud_get_track_metadata conv (Data track) (Raised e) album_fetch = Inl e"
    using assms by (simp add: soundcloud_get_track_metadata_def album_lookup_def)
next
  assume "str_find page ''<h2>Appears in albums</h2>'' \<noteq> -1 \<and>
    re_search_href (drop (nat (str_find page ''<h2>Appears in albums</h2>'')) page) = Some h"
  then show "soundcloud_get_track_metadata conv (Data track) (Data page) (Raised e) = Inl e"
    using assms by (simp add: soundcloud_get_track_metadata_def album_lookup_def)
next
  assume h: "str_find page ''<h2>Appears in albums</h2>'' = -1 \<or>
    re_search_href (drop (nat (str_find page ''<h2>Appears in albums</h2>'')) page) = None \<or>
    album_fetch = NoData"
  then show l: "album_lookup track (Data page) album_fetch =
      Inr (page, str_find page ''<h2>Appears in albums</h2>'', None)"
    using assms by (auto simp: album_lookup_def Let_def split: option.splits)
  fix i
  assume r: "soundcloud_get_track_metadata conv (Data track) (Data page) album_fetch = Inr i"
  from r obtain page' si' alb tot num ty where
    f: "album_lookup track (Data page) album_fetch = Inr (page', si', alb)"
      "track_number_block alb track = Inr (tot, num, ty)"
      "info_track_number i = num" "info_total_tracks i = tot" "info_album_type i = ty"
    by (rule metadata_fields)
  from f(1) l have "alb = None" by simp
  with f show "info_track_number i = PyStr ''1''" "info_total_tracks i = PyStr ''1''"
    "info_album_type i = ''single''"
    by (auto simp: ex_single)
qed

lemma ex_find_plain: "str_find ex_page_plain ''<h2>Appears in albums</h2>'' = -1"
  by (simp add: ex_page_plain_def)

lemma ex_find_album: "str_find ex_page_album ''<h2>Appears in albums</h2>'' = 0"
  by (simp add: ex_page_album_def)

lemma ex_href_album:
  "re_search_href (drop (nat 0) ex_page_album) = Some ''/artist/sets/album''"
  by (simp add: ex_page_album_def re_search_href_def dquote_def)

lemma ex_album_name_plain:
  "album_name_block ex_meta_track ex_page_plain (-1) = Inr (PyStr '''')"
  by (simp add: album_name_block_def publisher_album_name_def ex_meta_track_fields
      key_or_type_error_def scraped_album_name_def)

lemma ex_lookup_plain_nodata:
  "album_lookup ex_meta_track (Data ex_page_plain) NoData = Inr (ex_page_plain, -1, None)"
  by (simp add: album_lookup_def ex_meta_track_fields ex_find_plain)

lemma ex_returns_plain:
  "\<exists>i. soundcloud_get_track_metadata ex_conv (Data ex_meta_track) (Data ex_page_plain)
         NoData = Inr i"
  by (simp add: soundcloud_get_track_metadata_def ex_lookup_plain_nodata ex_artists
      ex_copyright ex_genre ex_length ex_single ex_album_name_plain)

text \<open>
  The cases of the amended C6: the fetch of the page raises; the resolve call raises
  after the marker and the href of the album page were found; the page has no marker.
\<close>

theorem scrape_failures_witness:
  "permalink_url ex_meta_track = Some ''https://soundcloud.com/artist/song'' \<and>
   soundcloud_get_track_metadata ex_conv (Data ex_meta_track) (Raised RequestException) NoData =
     Inl RequestException \<and>
   str_find ex_page_album ''<h2>Appears in albums</h2>'' = 0 \<and>
   re_search_href (drop (nat 0) ex_page_album) = Some ''/artist/sets/album'' \<and>
   soundcloud_get_track_metadata ex_conv (Data ex_meta_track) (Data ex_page_album)
     (Raised RequestException) = Inl RequestException \<and>
   str_find ex_page_plain ''<h2>Appears in albums</h2>'' = -1 \<and>
   (\<exists>i. soundcloud_get_track_metadata ex_conv (Data ex_meta_track) (Data ex_page_plain)
          NoData = Inr i \<and>
        info_track_number i = PyStr ''1'' \<and> info_total_tracks i = PyStr ''1'' \<and>
        info_album_type i = ''single'')"
proof -
  note p = ex_meta_track_fields(2)
  have a: "soundcloud_get_track_metadata ex_conv (Data ex_meta_track)
      (Raised RequestException) NoData = Inl RequestException"
    using scrape_failures [OF p] by blast
  have b: "soundcloud_get_track_metadata ex_conv (Data ex_meta_track) (Data ex_page_album)
      (Raised RequestException) = Inl RequestException"
    using scrape_failures [OF p, where page = ex_page_album and h = "''/artist/sets/album''"]
      ex_find_album ex_href_album
    by simp
  obtain i where i: "soundcloud_get_track_metadata ex_conv (Data ex_meta_track)
      (Data ex_page_plain) NoData = Inr i"
    using ex_returns_plain by blast
  have c: "info_track_number i = PyStr ''1'' \<and> info_total_tracks i = PyStr ''1'' \<and>
      info_album_type i = ''single''"
    using scrape_failures [OF p, where page = ex_page_plain and album_fetch = NoData]
      ex_find_plain i
    by blast
  show ?thesis
    using p a b c i ex_find_album ex_href_album ex_find_plain by blast
qed

section \<open>The length of the track\<close>

lemma get_length_default:
  "media track = None \<or> (\<exists>m. media track = Some m \<and> transcodings m = None) \<Longrightarrow>
     get_length track = Inr ''0''"
  by (auto simp: get_length_def str_of_int_def digits.simps)

lemma get_length_first:
  "media track = Some m \<Longrightarrow> transcodings m = Some (t # ts) \<Longrightarrow> duration t = Some d \<Longrightarrow>
     get_length track = Inr (str_of_int d)"
  by (simp add: get_length_def)

lemma get_length_empty:
  "media track = Some m \<Longrightarrow> transcodings m = Some [] \<Longrightarrow> get_length track = Inl IndexError"
  by (simp add: get_length_def)

lemma metadata_empty_transcodings:
  assumes "media track = Some m" and "transcodings m = Some []"
  shows "soundcloud_get_track_metadata conv (Data track) webpage album_fetch \<noteq> Inr i"
proof
  assume "soundcloud_get_track_metadata conv (Data track) webpage album_fetch = Inr i"
  then obtain "get_length track = Inr (info_length i)" by (rule metadata_fields)
  with assms show False by (simp add: get_length_empty)
qed

lemma ex_track_empty_list_fields:
  "track_id ex_track_empty_list = Some 2"
  "permalink_url ex_track_empty_list = Some ''https://soundcloud.com/artist/song''"
  "title ex_track_empty_list = Some ''Song''"
  "publisher_metadata ex_track_empty_list = Absent"
  "genre ex_track_empty_list = Some ''Ambient''"
  "media ex_track_empty_list = Some \<lparr>transcodings = Some []\<rparr>"
  "user ex_track_empty_list = Some \<lparr>username = Some ''artist''\<rparr>"
  by (simp_all add: ex_track_empty_list_def ex_meta_track_def empty_track_def)

text \<open>
  Claim C9 does not hold of the code: for a track record whose \<^verbatim>\<open>media\<close> holds an
  empty \<^verbatim>\<open>transcodings\<close> list, all else as in a record the function resolves, the
  function raises \<^verbatim>\<open>IndexError\<close> instead of returning a result with the length
  \<^verbatim>\<open>0\<close>. With the \<^verbatim>\<open>media\<close> key absent the same record resolves, with length
  \<^verbatim>\<open>0\<close>.
\<close>

theorem length_empty_transcodings:
  "soundcloud_get_track_metadata ex_conv (Data ex_track_empty_list) (Data ex_page_plain) NoData =
     Inl IndexError \<and>
   (\<exists>i. soundcloud_get_track_metadata ex_conv (Data (ex_track_empty_list\<lparr>media := None\<rparr>))
          (Data ex_page_plain) NoData = Inr i \<and> info_length i = ''0'')"
proof
  have l: "album_lookup ex_track_empty_list (Data ex_page_plain) NoData =
      Inr (ex_page_plain, -1, None)"
    by (simp add: album_lookup_def ex_track_empty_list_fields ex_find_plain)
  have a: "artists_block ex_conv ex_track_empty_list = Inr (PyStr ''artist'')"
    by (simp add: artists_block_def artist_items_def ex_track_empty_list_fields ex_conv_def
        py_not_def strip_def get_username_def)
  have n: "album_name_block ex_track_empty_list ex_page_plain (-1) = Inr (PyStr '''')"
    by (simp add: album_name_block_def publisher_album_name_def ex_track_empty_list_fields
        key_or_type_error_def scraped_album_name_def)
  have c: "ex_conv (copyright_list ex_track_empty_list) = Inr (PyStr '''')"
    by (simp add: copyright_list_def ex_track_empty_list_fields ex_conv_def)
  have g: "ex_conv (PyList [case genre ex_track_empty_list of None \<Rightarrow> PyList []
      | Some g \<Rightarrow> PyStr g]) = Inr (PyStr ''Ambient'')"
    by (simp add: ex_track_empty_list_fields ex_conv_def)
  have e: "get_length ex_track_empty_list = Inl IndexError"
    by (simp add: get_length_def ex_track_empty_list_fields)
  show "soundcloud_get_track_metadata ex_conv (Data ex_track_empty_list) (Data ex_page_plain)
      NoData = Inl IndexError"
    by (simp add: soundcloud_get_track_metadata_def l a n c g e ex_single)
  let ?t = "ex_track_empty_list\<lparr>media := None\<rparr>"
  have l': "album_lookup ?t (Data ex_page_plain) NoData = Inr (ex_page_plain, -1, None)"
    by (simp add: album_lookup_def ex_track_empty_list_fields ex_find_plain)
  have a': "artists_block ex_conv ?t = Inr (PyStr ''artist'')"
    by (simp add: artists_block_def artist_items_def ex_track_empty_list_fields ex_conv_def
        py_not_def strip_def get_username_def)
  have n': "album_name_block ?t ex_page_plain (-1) = Inr (PyStr '''')"
    by (simp add: album_name_block_def publisher_album_name_def ex_track_empty_list_fields
        key_or_type_error_def scraped_album_name_def)
  have c': "ex_conv (copyright_list ?t) = Inr (PyStr '''')"
    by (simp add: copyright_list_def ex_track_empty_list_fields ex_conv_def)
  have g': "ex_conv (PyList [case genre ?t of None \<Rightarrow> PyList [] | Some g \<Rightarrow> PyStr g]) =
      Inr (PyStr ''Ambient'')"
    by (simp add: ex_track_empty_list_fields ex_conv_def)
  have e': "get_length ?t = Inr ''0''"
    by (simp add: get_length_default)
  show "\<exists>i. soundcloud_get_track_metadata ex_conv (Data ?t) (Data ex_page_plain) NoData = Inr i \<and>
      info_length i = ''0''"
    by (simp add: soundcloud_get_track_metadata_def l' a' n' c' g g' e' ex_single)
qed

end
